theory Spec2Isabelle
  imports Complex_Main
begin

section \<open>JavaScript values used by the AI layer\<close>

text \<open>
  Strings are lists of code units; the model covers the units below 256. Among those,
  the white space and line terminators that \<^verbatim>\<open>String.prototype.trim\<close> strips are
  TAB, LF, VT, FF, CR, SPACE and NBSP.
\<close>

definition is_ws :: "char \<Rightarrow> bool" where
  "is_ws c = (of_char c \<in> {9, 10, 11, 12, 13, 32, 160 :: nat})"

definition trim :: "string \<Rightarrow> string" where
  "trim s = rev (dropWhile is_ws (rev (dropWhile is_ws s)))"

text \<open>
  An optional value: \<^verbatim>\<open>undefined\<close>, \<^verbatim>\<open>null\<close> or a value of the expected type.
  A request option (\<^verbatim>\<open>tone\<close>, \<^verbatim>\<open>length\<close>, \<^verbatim>\<open>type\<close>) is \<^verbatim>\<open>undefined\<close>, \<^verbatim>\<open>null\<close>,
  a boolean or a string; numbers, arrays and objects in that place are outside the model.
\<close>

datatype 'a js = Undef | Null | Val 'a

datatype jsval = JUndefined | JNull | JBool bool | JStr string

text \<open>\<^verbatim>\<open>a ?? b\<close>: the right operand is taken when the left one is nullish.\<close>

definition nullish_or :: "'a js \<Rightarrow> 'a js \<Rightarrow> 'a js" where
  "nullish_or a b = (case a of Val v \<Rightarrow> Val v | _ \<Rightarrow> b)"

text \<open>The property key that a value used as an index is converted to.\<close>

fun to_property_key :: "jsval \<Rightarrow> string" where
  "to_property_key JUndefined = ''undefined''"
| "to_property_key JNull = ''null''"
| "to_property_key (JBool b) = (if b then ''true'' else ''false'')"
| "to_property_key (JStr s) = s"

text \<open>
  Reading \<^verbatim>\<open>obj[key]\<close> on an object literal finds the literal's own properties first
  and then the properties every object inherits from \<^verbatim>\<open>Object.prototype\<close>, which are
  built-in functions (and the prototype object itself under \<^verbatim>\<open>__proto__\<close>); only after
  both is the result \<^verbatim>\<open>undefined\<close>.
\<close>

datatype 'a property = Missing | Own 'a | Inherited string

definition object_prototype_keys :: "string list" where
  "object_prototype_keys =
     [''constructor'', ''__defineGetter__'', ''__defineSetter__'', ''hasOwnProperty'',
      ''__lookupGetter__'', ''__lookupSetter__'', ''isPrototypeOf'',
      ''propertyIsEnumerable'', ''toString'', ''valueOf'', ''__proto__'',
      ''toLocaleString'']"

definition object_get :: "(string \<times> 'a) list \<Rightarrow> string \<Rightarrow> 'a property" where
  "object_get props k =
     (case map_of props k of
        Some v \<Rightarrow> Own v
      | None \<Rightarrow> if k \<in> set object_prototype_keys then Inherited k else Missing)"

text \<open>
  \<^verbatim>\<open>obj[key] || d\<close>: the default replaces a missing or falsy own value; an inherited
  built-in is an object, hence truthy, and is returned as it is.
\<close>

definition or_default :: "('a \<Rightarrow> bool) \<Rightarrow> 'a property \<Rightarrow> 'a \<Rightarrow> 'a property" where
  "or_default falsy p d =
     (case p of
        Missing \<Rightarrow> Own d
      | Own v \<Rightarrow> if falsy v then Own d else Own v
      | Inherited k \<Rightarrow> Inherited k)"

section \<open>Prompt and token helpers of AIService\<close>

text \<open>
  \<^verbatim>\<open>getMaxTokens(length) { const limits = { short: 300, medium: 600, long: 1200 };
  return limits[length] || 600; }\<close> (the same in both service files).
\<close>

definition limits :: "(string \<times> int) list" where
  "limits = [(''short'', 300), (''medium'', 600), (''long'', 1200)]"

definition getMaxTokens :: "jsval \<Rightarrow> int property" where
  "getMaxTokens len = or_default (\<lambda>n. n = 0) (object_get limits (to_property_key len)) 600"

definition supported_lengths :: "string list" where
  "supported_lengths = [''short'', ''medium'', ''long'']"

text \<open>
  \<^verbatim>\<open>getSystemPrompt(tone, length)\<close> of the GenAI service: a template literal over
  \<^verbatim>\<open>toneMap[tone] || ''\<close> and \<^verbatim>\<open>lengthMap[length] || ''\<close>. The text that a template
  literal gives for an inherited built-in is fixed by the JavaScript engine, not by this
  repository; it is the parameter \<open>builtin_source\<close>.
\<close>

definition toneMap :: "(string \<times> string) list" where
  "toneMap =
     [(''professional'', ''Write in a formal, informative tone.''),
      (''casual'', ''Write in a friendly, conversational tone.''),
      (''technical'', ''Write in a precise, technical tone with clear explanations.''),
      (''creative'', ''Write in an imaginative, expressive tone.'')]"

definition lengthMap :: "(string \<times> string) list" where
  "lengthMap =
     [(''short'', ''Keep it concise (~100 words).''),
      (''medium'', ''Balanced detail (~300 words).''),
      (''long'', ''Comprehensive (~600-1000 words).'')]"

definition template_text :: "(string \<Rightarrow> string) \<Rightarrow> string property \<Rightarrow> string" where
  "template_text builtin_source p =
     (case p of Own s \<Rightarrow> s | Inherited k \<Rightarrow> builtin_source k | Missing \<Rightarrow> ''undefined'')"

definition getSystemPrompt :: "(string \<Rightarrow> string) \<Rightarrow> jsval \<Rightarrow> jsval \<Rightarrow> string" where
  "getSystemPrompt builtin_source tone len =
     ''You are an expert content writer. ''
     @ template_text builtin_source
         (or_default (\<lambda>s. s = []) (object_get toneMap (to_property_key tone)) [])
     @ '' ''
     @ template_text builtin_source
         (or_default (\<lambda>s. s = []) (object_get lengthMap (to_property_key len)) [])"

section \<open>The provider client\<close>

text \<open>
  What \<^verbatim>\<open>_callModel\<close> hands to \<^verbatim>\<open>client.models.generateContent\<close>, and what it reads
  from the answer. The fields of the answer are the three places where the text is looked
  for and the three places where a token count is looked for; a field that is absent is
  \<open>Undef\<close>. A count is an integer of either sign; numbers that are not integers and
  values that are not numbers are outside the model. An error thrown by the client carries
  optional \<^verbatim>\<open>status\<close>, \<^verbatim>\<open>code\<close> and \<^verbatim>\<open>message\<close>.
\<close>

record request =
  req_model :: string
  req_contents :: string
  req_temperature :: "real js"
  req_maxOutputTokens :: "int property"

record response =
  res_text :: "string js"
  res_response_text :: "string js"
  res_output0_content :: "string js"
  res_metadata_tokenCount :: "int js"
  res_usage_totalTokens :: "int js"
  res_usage_total_tokens :: "int js"

record sdk_error =
  err_status :: "int js"
  err_code :: "int js"
  err_message :: "string js"

text \<open>The error objects the service throws: \<^verbatim>\<open>e.status\<close> and \<^verbatim>\<open>e.message\<close>.\<close>

record api_error =
  e_status :: int
  e_message :: string

record call_result =
  cr_text :: string
  cr_tokensUsed :: int

text \<open>
  The client is outside the repository. Its answer may depend on the request and on how
  many requests it has already received, so that a retry of the same request can succeed.
  \<^verbatim>\<open>this.client\<close> is \<^verbatim>\<open>null\<close> when the constructor could not build one.
\<close>

type_synonym genai_client = "nat \<Rightarrow> request \<Rightarrow> sdk_error + response"

record service =
  client :: "genai_client option"
  defaultModel :: string
  fallbackModel :: string
  builtin_source :: "string \<Rightarrow> string"

datatype level = Info | Warn | Error

record usage_row =
  u_user_id :: nat
  u_post_id :: "nat option"
  u_feature_type :: string
  u_tokens_used :: int
  u_timestamp :: int

record bucket =
  hits :: nat
  resetTime :: int

text \<open>
  The state the handlers act on: the rows of \<^verbatim>\<open>ai_usage_logs\<close>, the counters of the two
  rate limiters that \<^verbatim>\<open>aiRateLimiter\<close> dispatches to, the logger's output, and two
  records kept for the call-count properties: the calls of \<^verbatim>\<open>_callModel\<close> made so far
  (\<open>invoked\<close>) and the requests that reached the client (\<open>sent\<close>).
\<close>

record world =
  invoked :: "request list"
  sent :: "request list"
  logs :: "(level \<times> string) list"
  ledger :: "usage_row list"
  general_store :: "string \<Rightarrow> bucket option"
  free_store :: "string \<Rightarrow> bucket option"

definition logger :: "level \<Rightarrow> string \<Rightarrow> world \<Rightarrow> world" where
  "logger lv msg w = w\<lparr>logs := logs w @ [(lv, msg)]\<rparr>"

fun str_includes :: "string \<Rightarrow> string \<Rightarrow> bool" where
  "str_includes [] t = (t = [])"
| "str_includes (c # cs) t = (take (length t) (c # cs) = t \<or> str_includes cs t)"

text \<open>
  The pieces of \<^verbatim>\<open>_callModel\<close>. The text of an answer is
  \<^verbatim>\<open>res?.text ?? res?.response?.text ?? (Array.isArray(res?.output) ? res.output[0]?.content : undefined) ?? ''\<close>,
  through \<^verbatim>\<open>String\<close>; its token count is
  \<^verbatim>\<open>Number(res?.metadata?.tokenCount ?? res?.usage?.totalTokens ?? res?.usage?.total_tokens ?? 0) || 0\<close>.
  An error of the client is rethrown with
  \<^verbatim>\<open>err?.status || err?.code || (err?.message && err.message.includes('quota') ? 429 : undefined)\<close>,
  or 500, as its status and \<^verbatim>\<open>err?.message || 'Generative API error'\<close> as its message.
\<close>

definition truthy_int :: "int js \<Rightarrow> bool" where
  "truthy_int v = (case v of Val n \<Rightarrow> n \<noteq> 0 | _ \<Rightarrow> False)"

definition response_text :: "response \<Rightarrow> string" where
  "response_text res =
     (case nullish_or (nullish_or (nullish_or (res_text res) (res_response_text res))
                         (res_output0_content res)) (Val [])
      of Val s \<Rightarrow> s | Undef \<Rightarrow> ''undefined'' | Null \<Rightarrow> ''null'')"

definition response_tokens :: "response \<Rightarrow> int" where
  "response_tokens res =
     (case nullish_or (nullish_or (nullish_or (res_metadata_tokenCount res)
                                     (res_usage_totalTokens res))
                         (res_usage_total_tokens res)) (Val 0)
      of Val n \<Rightarrow> (if n = 0 then 0 else n) | _ \<Rightarrow> 0)"

definition normalize_error :: "sdk_error \<Rightarrow> api_error" where
  "normalize_error err =
     (let status =
            (if truthy_int (err_status err) then err_status err
             else if truthy_int (err_code err) then err_code err
             else (case err_message err of
                     Val m \<Rightarrow> if str_includes m ''quota'' then Val 429 else Undef
                   | _ \<Rightarrow> Undef))
      in \<lparr>e_status = (case status of Val n \<Rightarrow> if n = 0 then 500 else n | _ \<Rightarrow> 500),
          e_message = (case err_message err of
                         Val m \<Rightarrow> if m = [] then ''Generative API error'' else m
                       | _ \<Rightarrow> ''Generative API error'')\<rparr>)"

text \<open>
  \<^verbatim>\<open>_callModel(model, contents, { temperature = 0.7, maxOutputTokens = 600 } = {})\<close>.
  A missing client is reported with status 503 before anything is sent.
\<close>

definition callModel ::
  "service \<Rightarrow> string \<Rightarrow> string \<Rightarrow> real js \<Rightarrow> int property \<Rightarrow> world
     \<Rightarrow> (api_error + call_result) \<times> world" where
  "callModel svc model contents temperature maxOutputTokens w =
     (let rq = \<lparr>req_model = model, req_contents = contents,
                req_temperature = (case temperature of Undef \<Rightarrow> Val 0.7 | t \<Rightarrow> t),
                req_maxOutputTokens =
                  (case maxOutputTokens of Missing \<Rightarrow> Own 600 | m \<Rightarrow> m)\<rparr>;
          w1 = w\<lparr>invoked := invoked w @ [rq]\<rparr>
      in case client svc of
           None \<Rightarrow>
             (Inl \<lparr>e_status = 503,
                   e_message = ''Generative client not configured (set GENAI_API_KEY or GEMINI_API_KEY)''\<rparr>,
              w1)
         | Some c \<Rightarrow>
             (let w2 = w1\<lparr>sent := sent w1 @ [rq]\<rparr>
              in case c (length (sent w1)) rq of
                   Inr res \<Rightarrow>
                     (Inr \<lparr>cr_text = response_text res,
                           cr_tokensUsed = response_tokens res\<rparr>, w2)
                 | Inl err \<Rightarrow> (Inl (normalize_error err), w2)))"

section \<open>The generation facade (GenAI service)\<close>

text \<open>
  The result objects. \<^verbatim>\<open>new Date().toISOString()\<close> is kept as the clock reading
  (milliseconds) it is computed from. The service never builds an entry of
  \<^verbatim>\<open>changes\<close>, so the type of the entries is left open.
\<close>

typedecl change

record gen_result =
  tokensUsed :: int
  timestamp :: int

record content_result = gen_result +
  content :: string
  model :: string

record grammar_result = gen_result +
  correctedText :: string
  changes :: "change list"

record enhance_result = gen_result +
  enhancedText :: string

record titles_result = gen_result +
  titles :: "string list"

record gen_options =
  opt_tone :: jsval
  opt_length :: jsval
  opt_creativity :: "real js"

definition nl :: string where
  "nl = [CHR 0x0A]"

text \<open>
  \<^verbatim>\<open>generateContent(prompt, options)\<close>. A destructuring default applies to
  \<^verbatim>\<open>undefined\<close> only, so a \<^verbatim>\<open>null\<close> option stays \<^verbatim>\<open>null\<close>.
\<close>

definition generateContent ::
  "service \<Rightarrow> int \<Rightarrow> string \<Rightarrow> gen_options \<Rightarrow> world
     \<Rightarrow> (api_error + content_result) \<times> world" where
  "generateContent svc now prompt options w =
     (let creativity = (case opt_creativity options of Undef \<Rightarrow> Val 0.7 | c \<Rightarrow> c);
          len = (case opt_length options of JUndefined \<Rightarrow> JStr ''medium'' | l \<Rightarrow> l);
          tone = (case opt_tone options of JUndefined \<Rightarrow> JStr ''professional'' | t \<Rightarrow> t);
          systemPrompt = getSystemPrompt (builtin_source svc) tone len;
          finalPrompt = systemPrompt @ nl @ nl @ prompt;
          maxOutputTokens = getMaxTokens len
      in case callModel svc (defaultModel svc) finalPrompt creativity maxOutputTokens w of
           (Inr resp, w1) \<Rightarrow>
             (Inr \<lparr>tokensUsed = cr_tokensUsed resp, timestamp = now,
                   content = cr_text resp, model = defaultModel svc\<rparr>,
              logger Info ''Content generated'' w1)
         | (Inl err, w1) \<Rightarrow>
             (let w2 = logger Warn
                         (''Primary model '' @ defaultModel svc @ '' failed: '' @ e_message err) w1
              in case callModel svc (fallbackModel svc) finalPrompt creativity maxOutputTokens w2 of
                   (Inr resp2, w3) \<Rightarrow>
                     (Inr \<lparr>tokensUsed = cr_tokensUsed resp2, timestamp = now,
                           content = cr_text resp2, model = fallbackModel svc\<rparr>,
                      logger Info ''Content generated (fallback)'' w3)
                 | (Inl err2, w3) \<Rightarrow>
                     (Inl \<lparr>e_status = (if e_status err2 = 0 then 500 else e_status err2),
                           e_message = ''Failed to generate content (Gemini/GenAI)''\<rparr>,
                      logger Error ''Generative content error (fallback):'' w3)))"

text \<open>
  \<^verbatim>\<open>correctGrammar(text)\<close>: the guard \<^verbatim>\<open>!text || !text.trim()\<close>, then one call with
  temperature 0 and \<^verbatim>\<open>Math.min(1200, Math.max(300, Math.ceil(text.length / 2)))\<close>
  output tokens; the \<^verbatim>\<open>catch\<close> logs and rethrows.
\<close>

definition grammar_prompt :: string where
  "grammar_prompt =
     ''You are a professional grammar and style editor. Correct grammar, spelling, punctuation and minor stylistic issues while preserving the original meaning and tone. RETURN ONLY THE CORRECTED TEXT AND NOTHING ELSE (no explanations, no JSON, no metadata).''
     @ nl @ nl @ ''Text:'' @ nl"

definition correctGrammar ::
  "service \<Rightarrow> int \<Rightarrow> string \<Rightarrow> world \<Rightarrow> (api_error + grammar_result) \<times> world" where
  "correctGrammar svc now txt w =
     (if txt = [] \<or> trim txt = [] then
        (Inr \<lparr>tokensUsed = 0, timestamp = now, correctedText = [], changes = []\<rparr>, w)
      else
        (let prompt = grammar_prompt @ txt
         in case callModel svc (defaultModel svc) prompt (Val 0.0)
                   (Own (min 1200 (max 300 ((int (length txt) + 1) div 2)))) w of
              (Inr resp, w1) \<Rightarrow>
                (Inr \<lparr>tokensUsed = (if cr_tokensUsed resp = 0 then 0 else cr_tokensUsed resp),
                      timestamp = now,
                      correctedText = trim (cr_text resp), changes = []\<rparr>, w1)
            | (Inl err, w1) \<Rightarrow> (Inl err, logger Error ''Grammar correction error:'' w1)))"

text \<open>\<^verbatim>\<open>enhanceContent(text, type)\<close>: a \<^verbatim>\<open>switch\<close> on the type, then primary and fallback.\<close>

definition enhance_prompt :: "jsval \<Rightarrow> string \<Rightarrow> string" where
  "enhance_prompt ty txt =
     (if ty = JStr ''expand'' then
        ''Expand the following text with more detail and examples while preserving meaning:''
        @ nl @ nl @ txt
      else if ty = JStr ''simplify'' then
        ''Simplify the following text for a general audience while preserving the key points:''
        @ nl @ nl @ txt
      else if ty = JStr ''improve'' then
        ''Improve clarity, flow, and impact of the following text:'' @ nl @ nl @ txt
      else if ty = JStr ''summarize'' then
        ''Summarize the following text concisely:'' @ nl @ nl @ txt
      else txt)"

definition enhanceContent ::
  "service \<Rightarrow> int \<Rightarrow> string \<Rightarrow> jsval \<Rightarrow> world \<Rightarrow> (api_error + enhance_result) \<times> world" where
  "enhanceContent svc now txt ty w =
     (let prompt = enhance_prompt ty txt
      in case callModel svc (defaultModel svc) prompt (Val 0.6) (Own 900) w of
           (Inr resp, w1) \<Rightarrow>
             (Inr \<lparr>tokensUsed = cr_tokensUsed resp, timestamp = now,
                   enhancedText = cr_text resp\<rparr>, w1)
         | (Inl err, w1) \<Rightarrow>
             (case callModel svc (fallbackModel svc) prompt (Val 0.6) (Own 900) w1 of
                (Inr resp2, w2) \<Rightarrow>
                  (Inr \<lparr>tokensUsed = cr_tokensUsed resp2, timestamp = now,
                        enhancedText = cr_text resp2\<rparr>, w2)
              | (Inl err2, w2) \<Rightarrow> (Inl err2, logger Error ''Enhance content error:'' w2)))"

text \<open>
  \<^verbatim>\<open>generateTitles(content, count = 5)\<close>. The answer goes through
  \<^verbatim>\<open>.split('\n').map(l => l.trim()).filter(Boolean).slice(0, count)\<close>; the OpenAI
  service has \<^verbatim>\<open>.filter(title => title.length > 0)\<close> in the place of
  \<^verbatim>\<open>.filter(Boolean)\<close>, which keeps the same strings.
  Numbers are printed in decimal, as JavaScript prints integers below \<open>10\<^sup>2\<^sup>1\<close>.
\<close>

fun split_on :: "char \<Rightarrow> string \<Rightarrow> string list" where
  "split_on d [] = [[]]"
| "split_on d (c # cs) =
     (if c = d then [] # split_on d cs
      else (case split_on d cs of [] \<Rightarrow> [[c]] | l # ls \<Rightarrow> (c # l) # ls))"

definition slice0 :: "'a list \<Rightarrow> int js \<Rightarrow> 'a list" where
  "slice0 xs n =
     (case n of
        Undef \<Rightarrow> xs
      | Null \<Rightarrow> []
      | Val k \<Rightarrow> if k < 0 then take (nat (int (length xs) + k)) xs else take (nat k) xs)"

fun show_nat :: "nat \<Rightarrow> string" where
  "show_nat n =
     (if n < 10 then [char_of (48 + n)]
      else show_nat (n div 10) @ [char_of (48 + n mod 10)])"

definition show_int :: "int \<Rightarrow> string" where
  "show_int i = (if i < 0 then CHR ''-'' # show_nat (nat (- i)) else show_nat (nat i))"

definition show_count :: "int js \<Rightarrow> string" where
  "show_count c = (case c of Val n \<Rightarrow> show_int n | Null \<Rightarrow> ''null'' | Undef \<Rightarrow> ''undefined'')"

definition titles_of :: "string \<Rightarrow> int js \<Rightarrow> string list" where
  "titles_of txt count =
     slice0 (filter (\<lambda>l. l \<noteq> []) (map trim (split_on (CHR 0x0A) txt))) count"

definition titles_prompt :: "int js \<Rightarrow> string \<Rightarrow> string" where
  "titles_prompt count cont =
     ''Generate '' @ show_count count
     @ '' SEO-friendly titles (one per line) for the content below. Return plain text, one title per line.''
     @ nl @ nl @ cont"

definition generateTitles ::
  "service \<Rightarrow> int \<Rightarrow> string \<Rightarrow> int js \<Rightarrow> world \<Rightarrow> (api_error + titles_result) \<times> world" where
  "generateTitles svc now cont count0 w =
     (let count = (case count0 of Undef \<Rightarrow> Val 5 | c \<Rightarrow> c);
          prompt = titles_prompt count cont
      in case callModel svc (defaultModel svc) prompt (Val 0.8) (Own 300) w of
           (Inr resp, w1) \<Rightarrow>
             (Inr \<lparr>tokensUsed = cr_tokensUsed resp, timestamp = now,
                   titles = titles_of (cr_text resp) count\<rparr>, w1)
         | (Inl err, w1) \<Rightarrow>
             (case callModel svc (fallbackModel svc) prompt (Val 0.8) (Own 300) w1 of
                (Inr resp2, w2) \<Rightarrow>
                  (Inr \<lparr>tokensUsed = cr_tokensUsed resp2, timestamp = now,
                        titles = titles_of (cr_text resp2) count\<rparr>, w2)
              | (Inl err2, w2) \<Rightarrow> (Inl err2, logger Error ''Title generation error:'' w2)))"

section \<open>The usage ledger and the AI routes\<close>

text \<open>
  The handlers read \<^verbatim>\<open>req.user.user_id\<close> and are modelled on a \<^verbatim>\<open>req.user\<close> that
  carries the identifier of the user there, as their comment expects
  (\<^verbatim>\<open>use req.user.user_id\<close>). The object that \<^verbatim>\<open>authenticateToken\<close> builds is modelled
  with the rate governor, which runs between that middleware and the handlers. A JSON
  answer sent without \<^verbatim>\<open>res.status\<close> has status 200. An error body is its \<^verbatim>\<open>code\<close>
  and \<^verbatim>\<open>message\<close>.
\<close>

record user =
  user_id :: nat

record feature_row =
  f_feature_type :: string
  f_request_count :: nat
  f_total_tokens :: int
  f_avg_tokens_per_request :: real

record daily_row =
  d_date :: int
  d_requests :: nat
  d_tokens :: int

record usage_summary =
  s_period :: int
  s_total_requests :: int
  s_total_tokens :: int
  s_byFeature :: "feature_row list"
  s_dailyUsage :: "daily_row list"
  s_timestamp :: int

datatype json_body =
    ErrorBody string string
  | GenerateBody string int int
  | GrammarBody string "change list" int int
  | EnhanceBody string int int
  | TitlesBody "string list" int int
  | UsageBody usage_summary

record http_response =
  http_status :: nat
  http_body :: json_body

text \<open>
  \<^verbatim>\<open>logAIUsage\<close>: the \<^verbatim>\<open>INSERT\<close> either appends a row stamped \<^verbatim>\<open>NOW()\<close> or throws;
  whether it throws is decided outside the program (\<open>insert_fails\<close>). The \<^verbatim>\<open>catch\<close>
  logs and returns.
\<close>

definition logAIUsage ::
  "bool \<Rightarrow> int \<Rightarrow> nat \<Rightarrow> nat option \<Rightarrow> string \<Rightarrow> int \<Rightarrow> world \<Rightarrow> world" where
  "logAIUsage insert_fails now userId postId featureType tokens w =
     (if insert_fails then logger Error ''Failed to log AI usage:'' w
      else w\<lparr>ledger := ledger w @
                 [\<lparr>u_user_id = userId, u_post_id = postId, u_feature_type = featureType,
                   u_tokens_used = tokens, u_timestamp = now\<rparr>]\<rparr>)"

text \<open>The validators of the request bodies (express-validator chains).\<close>

definition optional_isIn :: "jsval \<Rightarrow> string list \<Rightarrow> bool" where
  "optional_isIn v allowed =
     (case v of JUndefined \<Rightarrow> True | JStr s \<Rightarrow> s \<in> set allowed | _ \<Rightarrow> False)"

definition required_isIn :: "jsval \<Rightarrow> string list \<Rightarrow> bool" where
  "required_isIn v allowed = (case v of JStr s \<Rightarrow> s \<in> set allowed | _ \<Rightarrow> False)"

definition optional_isFloat :: "real js \<Rightarrow> real \<Rightarrow> real \<Rightarrow> bool" where
  "optional_isFloat v lo hi =
     (case v of Undef \<Rightarrow> True | Val r \<Rightarrow> lo \<le> r \<and> r \<le> hi | Null \<Rightarrow> False)"

definition optional_isInt :: "int js \<Rightarrow> int \<Rightarrow> int \<Rightarrow> bool" where
  "optional_isInt v lo hi =
     (case v of Undef \<Rightarrow> True | Val n \<Rightarrow> lo \<le> n \<and> n \<le> hi | Null \<Rightarrow> False)"

definition isLength :: "string \<Rightarrow> nat \<Rightarrow> nat \<Rightarrow> bool" where
  "isLength s lo hi = (lo \<le> length s \<and> length s \<le> hi)"

definition tones :: "string list" where
  "tones = [''professional'', ''casual'', ''technical'', ''creative'']"

definition enhance_types :: "string list" where
  "enhance_types = [''expand'', ''simplify'', ''improve'', ''summarize'']"

definition validation_error :: http_response where
  "validation_error =
     \<lparr>http_status = 400, http_body = ErrorBody ''VALIDATION_ERROR'' ''Validation failed''\<rparr>"

record generate_body =
  b_prompt :: string
  b_tone :: jsval
  b_length :: jsval
  b_creativity :: "real js"

text \<open>\<^verbatim>\<open>error?.status || 500\<close> and \<^verbatim>\<open>error.message || d\<close> in the handlers' \<^verbatim>\<open>catch\<close>.\<close>

definition status_or_500 :: "api_error \<Rightarrow> int" where
  "status_or_500 e = (if e_status e = 0 then 500 else e_status e)"

definition message_or :: "api_error \<Rightarrow> string \<Rightarrow> string" where
  "message_or e d = (if e_message e = [] then d else e_message e)"

definition tokens_or_0 :: "int \<Rightarrow> int" where
  "tokens_or_0 n = (if n = 0 then 0 else n)"

text \<open>\<^verbatim>\<open>router.post('/generate', ...)\<close>\<close>

definition generate_handler ::
  "service \<Rightarrow> int \<Rightarrow> bool \<Rightarrow> user \<Rightarrow> generate_body \<Rightarrow> world \<Rightarrow> http_response \<times> world" where
  "generate_handler svc now insert_fails usr body w =
     (let prompt = trim (b_prompt body)
      in if \<not> (isLength prompt 10 2000 \<and> optional_isIn (b_tone body) tones
                \<and> optional_isIn (b_length body) supported_lengths
                \<and> optional_isFloat (b_creativity body) 0 1)
         then (validation_error, w)
         else
           (case generateContent svc now prompt
                   \<lparr>opt_tone = b_tone body, opt_length = b_length body,
                    opt_creativity = b_creativity body\<rparr> w of
              (Inr result, w1) \<Rightarrow>
                (let w2 = logAIUsage insert_fails now (user_id usr) None ''generate''
                            (tokens_or_0 (tokensUsed result)) w1
                 in (\<lparr>http_status = 200,
                      http_body = GenerateBody (content result)
                                    (tokens_or_0 (tokensUsed result)) (timestamp result)\<rparr>, w2))
            | (Inl err, w1) \<Rightarrow>
                (let w2 = logger Error ''AI generate error:'' w1
                 in if status_or_500 err = 429 then
                      (\<lparr>http_status = 429,
                        http_body = ErrorBody ''AI_QUOTA_EXCEEDED''
                                      (message_or err ''AI quota exceeded'')\<rparr>, w2)
                    else if status_or_500 err = 503 then
                      (\<lparr>http_status = 503,
                        http_body = ErrorBody ''AI_SERVICE_UNAVAILABLE''
                                      (message_or err ''AI service unavailable'')\<rparr>, w2)
                    else
                      (\<lparr>http_status = 500,
                        http_body = ErrorBody ''AI_GENERATE_ERROR''
                                      ''Failed to generate content''\<rparr>, w2))))"

text \<open>\<^verbatim>\<open>router.post('/grammar', ...)\<close>\<close>

definition grammar_handler ::
  "service \<Rightarrow> int \<Rightarrow> bool \<Rightarrow> user \<Rightarrow> string \<Rightarrow> world \<Rightarrow> http_response \<times> world" where
  "grammar_handler svc now insert_fails usr text0 w =
     (let txt = trim text0
      in if \<not> isLength txt 1 5000 then (validation_error, w)
         else
           (case correctGrammar svc now txt w of
              (Inr result, w1) \<Rightarrow>
                (let w2 = logAIUsage insert_fails now (user_id usr) None ''grammar''
                            (tokens_or_0 (tokensUsed result)) w1
                 in (\<lparr>http_status = 200,
                      http_body = GrammarBody (correctedText result) (changes result)
                                    (tokens_or_0 (tokensUsed result)) (timestamp result)\<rparr>, w2))
            | (Inl err, w1) \<Rightarrow>
                (let w2 = logger Error ''AI grammar error:'' w1
                 in if status_or_500 err = 429 then
                      (\<lparr>http_status = 429,
                        http_body = ErrorBody ''AI_QUOTA_EXCEEDED'' (e_message err)\<rparr>, w2)
                    else
                      (\<lparr>http_status = 500,
                        http_body = ErrorBody ''AI_GRAMMAR_ERROR''
                                      ''Failed to correct grammar''\<rparr>, w2))))"

text \<open>\<^verbatim>\<open>router.post('/enhance', ...)\<close>; the ledger tag is \<^verbatim>\<open>`enhance_${req.body.type}`\<close>.\<close>

definition enhance_handler ::
  "service \<Rightarrow> int \<Rightarrow> bool \<Rightarrow> user \<Rightarrow> string \<Rightarrow> jsval \<Rightarrow> world \<Rightarrow> http_response \<times> world" where
  "enhance_handler svc now insert_fails usr text0 ty w =
     (let txt = trim text0
      in if \<not> (isLength txt 1 5000 \<and> required_isIn ty enhance_types) then (validation_error, w)
         else
           (case enhanceContent svc now txt ty w of
              (Inr result, w1) \<Rightarrow>
                (let w2 = logAIUsage insert_fails now (user_id usr) None
                            (''enhance_'' @ to_property_key ty)
                            (tokens_or_0 (tokensUsed result)) w1
                 in (\<lparr>http_status = 200,
                      http_body = EnhanceBody (enhancedText result)
                                    (tokens_or_0 (tokensUsed result)) (timestamp result)\<rparr>, w2))
            | (Inl err, w1) \<Rightarrow>
                (let w2 = logger Error ''AI enhance error:'' w1
                 in if status_or_500 err = 429 then
                      (\<lparr>http_status = 429,
                        http_body = ErrorBody ''AI_QUOTA_EXCEEDED'' (e_message err)\<rparr>, w2)
                    else
                      (\<lparr>http_status = 500,
                        http_body = ErrorBody ''AI_ENHANCE_ERROR''
                                      ''Failed to enhance content''\<rparr>, w2))))"

text \<open>\<^verbatim>\<open>router.post('/titles', ...)\<close>, with \<^verbatim>\<open>const { content, count = 5 } = req.body\<close>.\<close>

definition titles_handler ::
  "service \<Rightarrow> int \<Rightarrow> bool \<Rightarrow> user \<Rightarrow> string \<Rightarrow> int js \<Rightarrow> world \<Rightarrow> http_response \<times> world" where
  "titles_handler svc now insert_fails usr content0 count0 w =
     (let cont = trim content0
      in if \<not> (isLength cont 10 10000 \<and> optional_isInt count0 1 10) then (validation_error, w)
         else
           (let count = (case count0 of Undef \<Rightarrow> Val 5 | c \<Rightarrow> c)
            in case generateTitles svc now cont count w of
                 (Inr result, w1) \<Rightarrow>
                   (let w2 = logAIUsage insert_fails now (user_id usr) None ''titles''
                               (tokens_or_0 (tokensUsed result)) w1
                    in (\<lparr>http_status = 200,
                         http_body = TitlesBody (titles result)
                                       (tokens_or_0 (tokensUsed result)) (timestamp result)\<rparr>, w2))
               | (Inl err, w1) \<Rightarrow>
                   (let w2 = logger Error ''AI titles error:'' w1
                    in if status_or_500 err = 429 then
                         (\<lparr>http_status = 429,
                           http_body = ErrorBody ''AI_QUOTA_EXCEEDED'' (e_message err)\<rparr>, w2)
                       else
                         (\<lparr>http_status = 500,
                           http_body = ErrorBody ''AI_TITLES_ERROR''
                                         ''Failed to generate titles''\<rparr>, w2))))"

text \<open>
  \<^verbatim>\<open>parseInt(period, 10)\<close>: leading white space, an optional sign, then the longest
  run of decimal digits; \<open>None\<close> stands for \<^verbatim>\<open>NaN\<close>.
\<close>

definition is_digit :: "char \<Rightarrow> bool" where
  "is_digit c = (48 \<le> (of_char c :: nat) \<and> (of_char c :: nat) \<le> 57)"

definition digits_value :: "string \<Rightarrow> int" where
  "digits_value ds = foldl (\<lambda>a c. 10 * a + (int (of_char c) - 48)) 0 ds"

definition parseInt10 :: "string \<Rightarrow> int option" where
  "parseInt10 s =
     (let s1 = dropWhile is_ws s;
          neg = (case s1 of [] \<Rightarrow> False | c # _ \<Rightarrow> c = CHR ''-'');
          s2 = (case s1 of [] \<Rightarrow> [] | c # r \<Rightarrow> if c = CHR ''-'' \<or> c = CHR ''+'' then r else s1);
          ds = takeWhile is_digit s2
      in if ds = [] then None
         else Some (if neg then - digits_value ds else digits_value ds))"

text \<open>
  The three queries of \<^verbatim>\<open>router.get('/usage', ...)\<close> over the rows of
  \<^verbatim>\<open>ai_usage_logs\<close>. Time is in milliseconds; \<^verbatim>\<open>INTERVAL 'd days'\<close> is \<open>d\<close> times
  86400000 and \<^verbatim>\<open>DATE(timestamp)\<close> is the number of the (UTC) day. Rows that tie in
  \<^verbatim>\<open>ORDER BY request_count DESC\<close> are left in the order of their first record.
\<close>

definition day_ms :: int where
  "day_ms = 86400000"

definition date_of :: "int \<Rightarrow> int" where
  "date_of ts = ts div day_ms"

definition sum_tokens :: "usage_row list \<Rightarrow> int" where
  "sum_tokens rows = sum_list (map u_tokens_used rows)"

definition usage_query :: "nat \<Rightarrow> int \<Rightarrow> int \<Rightarrow> usage_row list \<Rightarrow> feature_row list" where
  "usage_query uid now days rows =
     (let sel = filter (\<lambda>r. u_user_id r = uid \<and> now - days * day_ms \<le> u_timestamp r) rows;
          groups = map (\<lambda>f. filter (\<lambda>r. u_feature_type r = f) sel)
                       (remdups (map u_feature_type sel))
      in sort_key (\<lambda>g. - int (f_request_count g))
           (map (\<lambda>g. \<lparr>f_feature_type = u_feature_type (hd g),
                       f_request_count = length g,
                       f_total_tokens = sum_tokens g,
                       f_avg_tokens_per_request = real_of_int (sum_tokens g) / real (length g)\<rparr>)
                groups))"

definition daily_query :: "nat \<Rightarrow> int \<Rightarrow> int \<Rightarrow> usage_row list \<Rightarrow> daily_row list" where
  "daily_query uid now days rows =
     (let sel = filter (\<lambda>r. u_user_id r = uid \<and> now - days * day_ms \<le> u_timestamp r) rows;
          groups = map (\<lambda>d. filter (\<lambda>r. date_of (u_timestamp r) = d) sel)
                       (remdups (map (\<lambda>r. date_of (u_timestamp r)) sel))
      in sort_key (\<lambda>g. - d_date g)
           (map (\<lambda>g. \<lparr>d_date = date_of (u_timestamp (hd g)),
                       d_requests = length g,
                       d_tokens = sum_tokens g\<rparr>)
                groups))"

definition total_query :: "nat \<Rightarrow> usage_row list \<Rightarrow> int \<times> int" where
  "total_query uid rows =
     (let sel = filter (\<lambda>r. u_user_id r = uid) rows
      in (int (length sel), sum_tokens sel))"

definition usage_handler ::
  "int \<Rightarrow> bool \<Rightarrow> user \<Rightarrow> string js \<Rightarrow> world \<Rightarrow> http_response \<times> world" where
  "usage_handler now query_fails usr period0 w =
     (let period = (case period0 of Undef \<Rightarrow> ''30'' | Null \<Rightarrow> ''null'' | Val s \<Rightarrow> s);
          invalid = \<lparr>http_status = 400,
                     http_body = ErrorBody ''INVALID_PERIOD''
                                   ''Period must be between 1 and 365 days''\<rparr>
      in case parseInt10 period of
           None \<Rightarrow> (invalid, w)
         | Some days \<Rightarrow>
             if days < 1 \<or> days > 365 then (invalid, w)
             else if query_fails then
               (\<lparr>http_status = 500,
                 http_body = ErrorBody ''AI_USAGE_ERROR'' ''Failed to fetch AI usage data''\<rparr>,
                logger Error ''AI usage error:'' w)
             else
               (let usageResult = usage_query (user_id usr) now days (ledger w);
                    dailyResult = daily_query (user_id usr) now days (ledger w);
                    total = total_query (user_id usr) (ledger w)
                in (\<lparr>http_status = 200,
                     http_body = UsageBody
                       \<lparr>s_period = days,
                        s_total_requests = (if fst total = 0 then 0 else fst total),
                        s_total_tokens = (if snd total = 0 then 0 else snd total),
                        s_byFeature = usageResult,
                        s_dailyUsage = dailyResult,
                        s_timestamp = now\<rparr>\<rparr>, w)))"

section \<open>The rate governor\<close>

text \<open>
  Modelled from the spec: the counter behind \<^verbatim>\<open>rateLimit({ windowMs, max, ... })\<close>. It is
  the express-rate-limit package, whose code is not among the sources; the spec's
  QuotaBucket gives its state (key, window start, count within the window, ceiling) and its
  rule (the count resets when the window has elapsed; a request beyond the ceiling is
  refused with status 429). A hit opens a window of \<open>windowMs\<close> when the key has none or
  its window is over, counts the request, and admits it while the count is within \<open>max\<close>.
\<close>

definition rate_limit_hit ::
  "int \<Rightarrow> int \<Rightarrow> string \<Rightarrow> int \<Rightarrow> (string \<Rightarrow> bucket option)
     \<Rightarrow> bool \<times> (string \<Rightarrow> bucket option)" where
  "rate_limit_hit windowMs mx key now store =
     (let fresh = \<lparr>hits = 0, resetTime = now + windowMs\<rparr>;
          b = (case store key of
                 None \<Rightarrow> fresh
               | Some b0 \<Rightarrow> if resetTime b0 \<le> now then fresh else b0);
          b1 = b\<lparr>hits := hits b + 1\<rparr>
      in (int (hits b1) \<le> mx, store(key \<mapsto> b1)))"

text \<open>
  The environment of \<^verbatim>\<open>rateLimiter.js\<close>: each field is \<^verbatim>\<open>parseInt(process.env.X)\<close>,
  \<open>None\<close> for \<^verbatim>\<open>NaN\<close>; \<^verbatim>\<open>parseInt(...) || d\<close> takes the default for \<^verbatim>\<open>NaN\<close> and 0.
\<close>

record config =
  RATE_LIMIT_WINDOW_MS :: "int option"
  RATE_LIMIT_MAX_REQUESTS :: "int option"
  AI_RATE_LIMIT_FREE_TIER :: "int option"
  AI_RATE_LIMIT_PREMIUM_TIER :: "int option"

definition env_or :: "int option \<Rightarrow> int \<Rightarrow> int" where
  "env_or v d = (case v of None \<Rightarrow> d | Some n \<Rightarrow> if n = 0 then d else n)"

text \<open>
  \<^verbatim>\<open>req.user\<close> as \<^verbatim>\<open>authenticateToken\<close> (\<^verbatim>\<open>middleware/auth.js\<close>) builds it from the
  row it selects from \<^verbatim>\<open>users\<close>:
  \<^verbatim>\<open>{ id: user.user_id, username: user.username, email: user.email, created_at: user.created_at }\<close>.
  The object is the list of its own properties, each with the text that a template literal
  prints for its value; a request without \<^verbatim>\<open>req.user\<close> has \<open>None\<close>.
\<close>

record users_row =
  row_user_id :: nat
  row_username :: string
  row_email :: string
  row_created_at :: string

type_synonym auth_user = "(string \<times> string) list"

definition authenticated_user :: "users_row \<Rightarrow> auth_user" where
  "authenticated_user r =
     [(''id'', show_nat (row_user_id r)), (''username'', row_username r),
      (''email'', row_email r), (''created_at'', row_created_at r)]"

record http_request =
  req_user :: "auth_user option"
  req_ip :: string
  req_url :: string

definition rate_limit_exceeded :: http_response where
  "rate_limit_exceeded =
     \<lparr>http_status = 429,
      http_body = ErrorBody ''RATE_LIMIT_EXCEEDED''
                    ''Too many requests from this IP, please try again later''\<rparr>"

definition ai_rate_limit_exceeded :: http_response where
  "ai_rate_limit_exceeded =
     \<lparr>http_status = 429,
      http_body = ErrorBody ''AI_RATE_LIMIT_EXCEEDED''
                    ''AI request limit exceeded. Upgrade your plan for more requests.''\<rparr>"

text \<open>
  A middleware either answers (\<open>Some\<close> response) or calls \<^verbatim>\<open>next()\<close> (\<open>None\<close>).
  \<^verbatim>\<open>generalLimiter\<close> counts per IP over 15 minutes; \<^verbatim>\<open>createAIRateLimiter(maxRequests)\<close>
  counts over 24 hours under the key
  \<^verbatim>\<open>req.user ? `user:${req.user.user_id}` : `ip:${req.ip}`\<close>, where the property
  \<^verbatim>\<open>user_id\<close> is read from the object above; \<open>engine\<close> is the text the JavaScript
  engine prints for a built-in function.
\<close>

definition generalLimiter ::
  "config \<Rightarrow> int \<Rightarrow> http_request \<Rightarrow> world \<Rightarrow> http_response option \<times> world" where
  "generalLimiter cfg now req w =
     (case rate_limit_hit (env_or (RATE_LIMIT_WINDOW_MS cfg) (15 * 60 * 1000))
             (env_or (RATE_LIMIT_MAX_REQUESTS cfg) 100) (req_ip req) now (general_store w) of
        (admitted, store) \<Rightarrow>
          if admitted then (None, w\<lparr>general_store := store\<rparr>)
          else (Some rate_limit_exceeded,
                logger Warn ''Rate limit exceeded'' (w\<lparr>general_store := store\<rparr>)))"

definition keyGenerator :: "(string \<Rightarrow> string) \<Rightarrow> http_request \<Rightarrow> string" where
  "keyGenerator engine req =
     (case req_user req of
        Some u \<Rightarrow> ''user:'' @ template_text engine (object_get u ''user_id'')
      | None \<Rightarrow> ''ip:'' @ req_ip req)"

definition window_24h :: int where
  "window_24h = 24 * 60 * 60 * 1000"

definition free_tier_max :: "config \<Rightarrow> int" where
  "free_tier_max cfg = env_or (AI_RATE_LIMIT_FREE_TIER cfg) 50"

definition freeTierLimiter ::
  "(string \<Rightarrow> string) \<Rightarrow> config \<Rightarrow> int \<Rightarrow> http_request \<Rightarrow> world
     \<Rightarrow> http_response option \<times> world" where
  "freeTierLimiter engine cfg now req w =
     (case rate_limit_hit window_24h (free_tier_max cfg) (keyGenerator engine req) now
             (free_store w) of
        (admitted, store) \<Rightarrow>
          if admitted then (None, w\<lparr>free_store := store\<rparr>)
          else (Some ai_rate_limit_exceeded,
                logger Warn ''AI rate limit exceeded'' (w\<lparr>free_store := store\<rparr>)))"

definition aiRateLimiter ::
  "(string \<Rightarrow> string) \<Rightarrow> config \<Rightarrow> int \<Rightarrow> http_request \<Rightarrow> world
     \<Rightarrow> http_response option \<times> world" where
  "aiRateLimiter engine cfg now req w =
     (case req_user req of
        None \<Rightarrow> generalLimiter cfg now req w
      | Some u \<Rightarrow> freeTierLimiter engine cfg now req w)"

text \<open>The handlers of \<^verbatim>\<open>routes/ai.js\<close> by the path they are mounted on.\<close>

datatype ai_call =
    Generate generate_body
  | Grammar string
  | Enhance string jsval
  | Titles string "int js"
  | Usage "string js"

definition dispatch ::
  "service \<Rightarrow> int \<Rightarrow> bool \<Rightarrow> user \<Rightarrow> ai_call \<Rightarrow> world \<Rightarrow> http_response \<times> world" where
  "dispatch svc now db_fails usr call w =
     (case call of
        Generate body \<Rightarrow> generate_handler svc now db_fails usr body w
      | Grammar txt \<Rightarrow> grammar_handler svc now db_fails usr txt w
      | Enhance txt ty \<Rightarrow> enhance_handler svc now db_fails usr txt ty w
      | Titles cont count \<Rightarrow> titles_handler svc now db_fails usr cont count w
      | Usage period \<Rightarrow> usage_handler now db_fails usr period w)"

section \<open>Observing the facade\<close>

text \<open>
  The four operations of the facade under one name, with the part of the result they
  share (token cost and timestamp), and the \<^verbatim>\<open>_callModel\<close> call that a logged request
  stands for.
\<close>

datatype operation =
    GenerateContent string gen_options
  | CorrectGrammar string
  | EnhanceContent string jsval
  | GenerateTitles string "int js"

definition run_op ::
  "service \<Rightarrow> int \<Rightarrow> operation \<Rightarrow> world \<Rightarrow> (api_error + gen_result) \<times> world" where
  "run_op svc now op w =
     (case op of
        GenerateContent prompt options \<Rightarrow>
          (case generateContent svc now prompt options w of
             (r, w1) \<Rightarrow> (map_sum id gen_result.truncate r, w1))
      | CorrectGrammar txt \<Rightarrow>
          (case correctGrammar svc now txt w of
             (r, w1) \<Rightarrow> (map_sum id gen_result.truncate r, w1))
      | EnhanceContent txt ty \<Rightarrow>
          (case enhanceContent svc now txt ty w of
             (r, w1) \<Rightarrow> (map_sum id gen_result.truncate r, w1))
      | GenerateTitles cont count \<Rightarrow>
          (case generateTitles svc now cont count w of
             (r, w1) \<Rightarrow> (map_sum id gen_result.truncate r, w1)))"

text \<open>
  The request an operation hands to \<^verbatim>\<open>_callModel\<close> for the primary model (the prompt,
  temperature and output ceiling it builds from its arguments), and the same request for
  the fallback model.
\<close>

definition primary_request :: "service \<Rightarrow> operation \<Rightarrow> request" where
  "primary_request svc op =
     (case op of
        GenerateContent prompt options \<Rightarrow>
          (let len = (case opt_length options of JUndefined \<Rightarrow> JStr ''medium'' | l \<Rightarrow> l);
               tone = (case opt_tone options of JUndefined \<Rightarrow> JStr ''professional'' | t \<Rightarrow> t)
           in \<lparr>req_model = defaultModel svc,
               req_contents = getSystemPrompt (builtin_source svc) tone len @ nl @ nl @ prompt,
               req_temperature = (case opt_creativity options of Undef \<Rightarrow> Val 0.7 | c \<Rightarrow> c),
               req_maxOutputTokens = getMaxTokens len\<rparr>)
      | CorrectGrammar txt \<Rightarrow>
          \<lparr>req_model = defaultModel svc, req_contents = grammar_prompt @ txt,
           req_temperature = Val 0,
           req_maxOutputTokens = Own (min 1200 (max 300 ((int (length txt) + 1) div 2)))\<rparr>
      | EnhanceContent txt ty \<Rightarrow>
          \<lparr>req_model = defaultModel svc, req_contents = enhance_prompt ty txt,
           req_temperature = Val 0.6, req_maxOutputTokens = Own 900\<rparr>
      | GenerateTitles cont count \<Rightarrow>
          \<lparr>req_model = defaultModel svc,
           req_contents = titles_prompt (case count of Undef \<Rightarrow> Val 5 | c \<Rightarrow> c) cont,
           req_temperature = Val 0.8, req_maxOutputTokens = Own 300\<rparr>)"

definition fallback_request :: "service \<Rightarrow> operation \<Rightarrow> request" where
  "fallback_request svc op = (primary_request svc op)\<lparr>req_model := fallbackModel svc\<rparr>"

definition replay :: "service \<Rightarrow> request \<Rightarrow> world \<Rightarrow> (api_error + call_result) \<times> world" where
  "replay svc rq w =
     callModel svc (req_model rq) (req_contents rq) (req_temperature rq)
       (req_maxOutputTokens rq) w"

definition reported_counts :: "response \<Rightarrow> int js list" where
  "reported_counts res =
     [res_metadata_tokenCount res, res_usage_totalTokens res, res_usage_total_tokens res]"

text \<open>Fixtures: a client whose first answer is an error, one that always answers, a
  service around each, and the state before any request.\<close>

definition sample_response :: response where
  "sample_response =
     \<lparr>res_text = Val ''The cat sat on the mat.'', res_response_text = Undef,
      res_output0_content = Undef, res_metadata_tokenCount = Undef,
      res_usage_totalTokens = Val 42, res_usage_total_tokens = Undef\<rparr>"

definition flaky_client :: genai_client where
  "flaky_client k rq =
     (if k = 0 then Inl \<lparr>err_status = Val 500, err_code = Undef,
                          err_message = Val ''upstream unavailable''\<rparr>
      else Inr sample_response)"

definition steady_client :: genai_client where
  "steady_client k rq = Inr sample_response"

definition engine_text :: "string \<Rightarrow> string" where
  "engine_text k = ''function '' @ k @ ''() { [native code] }''"

definition flaky_service :: service where
  "flaky_service =
     \<lparr>client = Some flaky_client, defaultModel = ''gemini-flash-latest'',
      fallbackModel = ''text-bison-001'', builtin_source = engine_text\<rparr>"

definition steady_service :: service where
  "steady_service =
     \<lparr>client = Some steady_client, defaultModel = ''gemini-flash-latest'',
      fallbackModel = ''text-bison-001'', builtin_source = engine_text\<rparr>"

definition world0 :: world where
  "world0 =
     \<lparr>invoked = [], sent = [], logs = [], ledger = [],
      general_store = (\<lambda>k. None), free_store = (\<lambda>k. None)\<rparr>"

definition eight_lines :: string where
  "eight_lines =
     '' Alpha'' @ nl @ ''Beta '' @ nl @ ''Gamma'' @ nl @ ''Delta'' @ nl @ ''Epsilon''
     @ nl @ ''Zeta'' @ nl @ ''Eta'' @ nl @ ''Theta''"

text \<open>Three ledger rows of user 1: today, 10 days ago and 40 days ago (today is day 100).\<close>

definition today :: int where
  "today = 100 * day_ms"

definition three_rows :: "usage_row list" where
  "three_rows =
     [\<lparr>u_user_id = 1, u_post_id = None, u_feature_type = ''generate'',
       u_tokens_used = 100, u_timestamp = today\<rparr>,
      \<lparr>u_user_id = 1, u_post_id = None, u_feature_type = ''grammar'',
       u_tokens_used = 200, u_timestamp = today - 10 * day_ms\<rparr>,
      \<lparr>u_user_id = 1, u_post_id = None, u_feature_type = ''titles'',
       u_tokens_used = 400, u_timestamp = today - 40 * day_ms\<rparr>]"

text \<open>
  A service whose client gives the same answer to every request, and an answer that
  consists of a text and a count under \<^verbatim>\<open>usage.totalTokens\<close>.
\<close>

definition answering :: "response \<Rightarrow> service" where
  "answering resp =
     \<lparr>client = Some (\<lambda>k rq. Inr resp), defaultModel = ''gemini-flash-latest'',
      fallbackModel = ''text-bison-001'', builtin_source = engine_text\<rparr>"

definition reply :: "string \<Rightarrow> int js \<Rightarrow> response" where
  "reply s n =
     \<lparr>res_text = Val s, res_response_text = Undef, res_output0_content = Undef,
      res_metadata_tokenCount = Undef, res_usage_totalTokens = n,
      res_usage_total_tokens = Undef\<rparr>"

text \<open>Eight lines of which none is empty and the last four are a single space.\<close>

definition blank_tail :: string where
  "blank_tail =
     ''Alpha'' @ nl @ ''Beta'' @ nl @ ''Gamma'' @ nl @ ''Delta'' @ nl @ '' '' @ nl @ '' ''
     @ nl @ '' '' @ nl @ '' ''"

text \<open>
  Requests passing through \<^verbatim>\<open>aiRateLimiter\<close> one after the other, each at its arrival
  time (in milliseconds), with the answers of the limiter.
\<close>

fun limit_all ::
  "(string \<Rightarrow> string) \<Rightarrow> config \<Rightarrow> (int \<times> http_request) list \<Rightarrow> world
     \<Rightarrow> http_response option list \<times> world" where
  "limit_all bs cfg [] w = ([], w)"
| "limit_all bs cfg (tr # trs) w =
     (case aiRateLimiter bs cfg (fst tr) (snd tr) w of
        (answer, w1) \<Rightarrow>
          (case limit_all bs cfg trs w1 of (answers, w2) \<Rightarrow> (answer # answers, w2)))"

text \<open>
  A free tier of two requests, and the request of a user of the given identifier after
  \<^verbatim>\<open>authenticateToken\<close> has attached \<^verbatim>\<open>req.user\<close>.
\<close>

definition small_config :: config where
  "small_config =
     \<lparr>RATE_LIMIT_WINDOW_MS = None, RATE_LIMIT_MAX_REQUESTS = None,
      AI_RATE_LIMIT_FREE_TIER = Some 2, AI_RATE_LIMIT_PREMIUM_TIER = None\<rparr>"

definition request_of :: "nat \<Rightarrow> http_request" where
  "request_of n =
     \<lparr>req_user = Some (authenticated_user
                         \<lparr>row_user_id = n, row_username = ''user'' @ show_nat n,
                          row_email = ''user'' @ show_nat n @ ''@example.org'',
                          row_created_at = ''2025-01-01T00:00:00.000Z''\<rparr>),
      req_ip = ''10.0.0.'' @ show_nat n, req_url = ''/usage''\<rparr>"

section \<open>Properties\<close>

subsection \<open>Strings\<close>

text \<open>
  \<open>trim\<close> removes exactly the white space at both ends, and \<open>split_on\<close> cuts at every
  delimiter: the pieces, each preceded by the delimiter, give back the text.
\<close>

lemma trim_ws: "\<forall>c\<in>set s. is_ws c \<Longrightarrow> trim s = []"
proof -
  assume "\<forall>c\<in>set s. is_ws c"
  then have d: "dropWhile is_ws s = []" by (simp only: dropWhile_eq_Nil_conv)
  show ?thesis unfolding trim_def d by simp
qed

lemma trim_Nil_iff: "trim s = [] \<longleftrightarrow> (\<forall>c\<in>set s. is_ws c)"
proof
  assume "trim s = []"
  then have "\<forall>c\<in>set (dropWhile is_ws s). is_ws c" by (simp add: trim_def)
  then have "dropWhile is_ws s = []"
    by (metis dropWhile_eq_Nil_conv dropWhile_idem)
  then show "\<forall>c\<in>set s. is_ws c" by simp
qed (rule trim_ws)

lemma trim_idem: "trim (trim s) = trim s"
proof -
  define u where "u = dropWhile is_ws s"
  define v where "v = dropWhile is_ws (rev u)"
  have t: "trim s = rev v" by (simp add: trim_def u_def v_def)
  have a: "dropWhile is_ws v = v" by (simp add: v_def)
  show ?thesis
  proof (cases "v = []")
    case True then show ?thesis unfolding t by (simp add: trim_def)
  next
    case False
    have "rev u = takeWhile is_ws (rev u) @ v" by (simp add: v_def)
    then have "u = rev v @ rev (takeWhile is_ws (rev u))"
      by (metis rev_append rev_rev_ident)
    then obtain p where up: "u = rev v @ p" by blast
    from False have "hd (rev v) = hd u" "u \<noteq> []" unfolding up by (simp_all add: hd_append)
    moreover have "\<not> is_ws (hd u)" using \<open>u \<noteq> []\<close> unfolding u_def by (rule hd_dropWhile)
    ultimately have "dropWhile is_ws (rev v) = rev v" using False
      by (cases "rev v") auto
    then show ?thesis unfolding t by (simp add: trim_def a)
  qed
qed

lemma split_on_join:
  "concat (map (\<lambda>l. CHR 0x0A # l) (split_on (CHR 0x0A) s)) = CHR 0x0A # s"
  by (induction s) (auto split: list.splits)

lemma split_on_no_delim: "l \<in> set (split_on d s) \<Longrightarrow> d \<notin> set l"
  by (induction s arbitrary: l) (auto split: list.splits if_splits)

subsection \<open>The provider client\<close>

text \<open>
  What one \<^verbatim>\<open>_callModel\<close> does to the state, and what a successful one returns.
\<close>

lemma callModel_invoked:
  "callModel svc mdl c t m w = (r, w1) \<Longrightarrow> t \<noteq> Undef \<Longrightarrow> m \<noteq> Missing \<Longrightarrow>
   invoked w1 =
     invoked w @ [\<lparr>req_model = mdl, req_contents = c, req_temperature = t, req_maxOutputTokens = m\<rparr>]"
  by (cases t; cases m) (auto simp: callModel_def Let_def split: option.splits sum.splits)

lemma callModel_sent:
  "callModel svc mdl c t m w = (r, w1) \<Longrightarrow> t \<noteq> Undef \<Longrightarrow> m \<noteq> Missing \<Longrightarrow>
   sent w1 =
     sent w @ (case client svc of None \<Rightarrow> [] | Some c0 \<Rightarrow>
       [\<lparr>req_model = mdl, req_contents = c, req_temperature = t, req_maxOutputTokens = m\<rparr>])"
  by (cases t; cases m) (auto simp: callModel_def Let_def split: option.splits sum.splits)

lemma callModel_keeps:
  "callModel svc mdl c t m w = (r, w1) \<Longrightarrow>
     ledger w1 = ledger w \<and> free_store w1 = free_store w \<and> general_store w1 = general_store w"
  by (auto simp: callModel_def Let_def split: option.splits sum.splits)

lemma callModel_Inr:
  "callModel svc mdl c t m w = (Inr cr, w1) \<Longrightarrow>
    \<exists>c0 rq resp. client svc = Some c0 \<and> c0 (length (sent w)) rq = Inr resp
       \<and> cr = \<lparr>cr_text = response_text resp, cr_tokensUsed = response_tokens resp\<rparr>"
  by (auto simp: callModel_def Let_def split: option.splits sum.splits)

lemma callModel_fst_cong:
  "sent w = sent v \<Longrightarrow> fst (callModel svc mdl c t m w) = fst (callModel svc mdl c t m v)"
  by (auto simp: callModel_def Let_def split: option.splits sum.splits)

lemma callModel_status: "callModel svc mdl c t m w = (Inl e, w1) \<Longrightarrow> e_status e \<noteq> 0"
  by (auto simp: callModel_def Let_def normalize_error_def split: option.splits sum.splits js.splits if_splits)

lemma logger_fields [simp]:
  "invoked (logger lv msg w) = invoked w" "sent (logger lv msg w) = sent w"
  "ledger (logger lv msg w) = ledger w" "free_store (logger lv msg w) = free_store w"
  "general_store (logger lv msg w) = general_store w"
  "logs (logger lv msg w) = logs w @ [(lv, msg)]"
  by (simp_all add: logger_def)

lemmas eval_defs = generateContent_def enhanceContent_def generateTitles_def correctGrammar_def
  callModel_def flaky_service_def flaky_client_def steady_service_def steady_client_def
  world0_def normalize_error_def truthy_int_def logger_def Let_def
  sample_response_def response_text_def response_tokens_def nullish_or_def replay_def run_op_def
  gen_result.truncate_def

lemma callModel_answer:
  assumes cl: "client svc = Some c" and t: "t \<noteq> Undef" and m: "m \<noteq> Missing"
  shows "callModel svc mdl cts t m w =
     (case c (length (sent w))
             \<lparr>req_model = mdl, req_contents = cts, req_temperature = t, req_maxOutputTokens = m\<rparr> of
        Inr res \<Rightarrow> Inr \<lparr>cr_text = response_text res, cr_tokensUsed = response_tokens res\<rparr>
      | Inl err \<Rightarrow> Inl (normalize_error err),
      w\<lparr>invoked := invoked w @
            [\<lparr>req_model = mdl, req_contents = cts, req_temperature = t, req_maxOutputTokens = m\<rparr>],
        sent := sent w @
            [\<lparr>req_model = mdl, req_contents = cts, req_temperature = t, req_maxOutputTokens = m\<rparr>]\<rparr>)"
  using assms by (cases t; cases m) (simp_all add: callModel_def Let_def split: sum.splits)

text \<open>
  \<open>replay\<close> of a request is the call of \<^verbatim>\<open>_callModel\<close> with the fields of the request.
\<close>

lemma replay_answer:
  assumes cl: "client svc = Some c" and t: "req_temperature rq \<noteq> Undef"
      and m: "req_maxOutputTokens rq \<noteq> Missing"
  shows "replay svc rq w =
     (case c (length (sent w)) rq of
        Inr res \<Rightarrow> Inr \<lparr>cr_text = response_text res, cr_tokensUsed = response_tokens res\<rparr>
      | Inl err \<Rightarrow> Inl (normalize_error err),
      w\<lparr>invoked := invoked w @ [rq], sent := sent w @ [rq]\<rparr>)"
  using callModel_answer[OF cl t m, of "req_model rq" "req_contents rq" w]
  by (cases rq) (simp add: replay_def)

lemma replay_invoked:
  "req_temperature rq \<noteq> Undef \<Longrightarrow> req_maxOutputTokens rq \<noteq> Missing \<Longrightarrow>
   invoked (snd (replay svc rq w)) = invoked w @ [rq]"
  using callModel_invoked[of svc "req_model rq" "req_contents rq" "req_temperature rq"
          "req_maxOutputTokens rq" w "fst (replay svc rq w)" "snd (replay svc rq w)"]
  by (cases rq) (simp add: replay_def)

lemma replay_logger: "fst (replay svc rq (logger lv msg w)) = fst (replay svc rq w)"
  unfolding replay_def by (rule callModel_fst_cong) simp

lemma replay_status: "replay svc rq w = (Inl e, w1) \<Longrightarrow> e_status e \<noteq> 0"
  unfolding replay_def by (rule callModel_status)

subsection \<open>Output ceilings\<close>

lemma getMaxTokens_not_Missing: "getMaxTokens len \<noteq> Missing"
  by (simp add: getMaxTokens_def or_default_def split: property.splits)

lemma getMaxTokens_default:
  "to_property_key len \<notin> set supported_lengths \<Longrightarrow> to_property_key len \<notin> set object_prototype_keys
   \<Longrightarrow> getMaxTokens len = Own 600"
  by (auto simp: getMaxTokens_def or_default_def object_get_def limits_def supported_lengths_def)

lemma generateContent_requests:
  assumes run: "generateContent svc now prompt options w = (r, w')"
  shows "\<exists>rs ss. invoked w' = invoked w @ rs \<and> sent w' = sent w @ ss \<and> set ss \<subseteq> set rs \<and> rs \<noteq> [] \<and>
          (\<forall>rq\<in>set rs. req_maxOutputTokens rq =
              getMaxTokens (case opt_length options of JUndefined \<Rightarrow> JStr ''medium'' | l \<Rightarrow> l))"
proof -
  let ?t = "case opt_creativity options of Undef \<Rightarrow> Val 0.7 | c \<Rightarrow> c"
  let ?len = "case opt_length options of JUndefined \<Rightarrow> JStr ''medium'' | l \<Rightarrow> l"
  let ?tone = "case opt_tone options of JUndefined \<Rightarrow> JStr ''professional'' | t \<Rightarrow> t"
  let ?c = "getSystemPrompt (builtin_source svc) ?tone ?len @ nl @ nl @ prompt"
  let ?m = "getMaxTokens ?len"
  have t: "?t \<noteq> Undef" by (simp split: js.splits)
  have m: "?m \<noteq> Missing" by (rule getMaxTokens_not_Missing)
  obtain r1 v1 where p: "callModel svc (defaultModel svc) ?c ?t ?m w = (r1, v1)"
    by (cases "callModel svc (defaultModel svc) ?c ?t ?m w")
  note i1 = callModel_invoked[OF p t m] and s1 = callModel_sent[OF p t m]
  show ?thesis
  proof (cases r1)
    case (Inr resp)
    with run p have "invoked w' = invoked v1" "sent w' = sent v1"
      by (auto simp: generateContent_def Let_def)
    with i1 s1 show ?thesis by (auto split: option.splits)
  next
    case (Inl err)
    let ?u = "logger Warn (''Primary model '' @ defaultModel svc @ '' failed: '' @ e_message err) v1"
    obtain r2 v3 where f: "callModel svc (fallbackModel svc) ?c ?t ?m ?u = (r2, v3)"
      by (cases "callModel svc (fallbackModel svc) ?c ?t ?m ?u")
    note i2 = callModel_invoked[OF f t m] and s2 = callModel_sent[OF f t m]
    from run p Inl f have "invoked w' = invoked v3" "sent w' = sent v3"
      by (auto simp: generateContent_def Let_def split: sum.splits)
    with i1 s1 i2 s2 show ?thesis by (auto split: option.splits)
  qed
qed

text \<open>
  Claim C9. For a length among short, medium and long, \<open>getMaxTokens\<close> is 300, 600 and
  1200 respectively, and every call that \<open>generateContent\<close> logs or sends to the client
  for that length carries exactly that ceiling.
\<close>

theorem generateContent_ceiling:
  assumes "opt_length options = JStr l" and "l \<in> set supported_lengths"
  shows "getMaxTokens (JStr l) =
           Own (if l = ''short'' then 300 else if l = ''medium'' then 600 else 1200) \<and>
         (\<forall>rq \<in> set (drop (length (invoked w))
                        (invoked (snd (generateContent svc now prompt options w)))).
             req_maxOutputTokens rq = getMaxTokens (JStr l)) \<and>
         (\<forall>rq \<in> set (drop (length (sent w))
                        (sent (snd (generateContent svc now prompt options w)))).
             req_maxOutputTokens rq = getMaxTokens (JStr l))"
proof -
  have a: "getMaxTokens (JStr l) =
           Own (if l = ''short'' then 300 else if l = ''medium'' then 600 else 1200)"
    using assms(2)
    by (auto simp: supported_lengths_def getMaxTokens_def or_default_def object_get_def limits_def)
  obtain r w' where run: "generateContent svc now prompt options w = (r, w')"
    by (cases "generateContent svc now prompt options w")
  from generateContent_requests[OF run] assms(1) a show ?thesis by (auto simp: run)
qed

text \<open>
  Witness for C9: a short generation whose primary call fails, so that two calls are made.
\<close>

theorem generateContent_ceiling_witness:
  "opt_length \<lparr>opt_tone = JUndefined, opt_length = JStr ''short'', opt_creativity = Undef\<rparr> = JStr ''short''
   \<and> ''short'' \<in> set supported_lengths
   \<and> getMaxTokens (JStr ''short'') = Own 300
   \<and> set (map req_maxOutputTokens (drop (length (invoked world0))
         (invoked (snd (generateContent flaky_service 0 ''Write about cats''
            \<lparr>opt_tone = JUndefined, opt_length = JStr ''short'', opt_creativity = Undef\<rparr> world0)))))
        \<subseteq> {Own 300}
   \<and> length (invoked (snd (generateContent flaky_service 0 ''Write about cats''
            \<lparr>opt_tone = JUndefined, opt_length = JStr ''short'', opt_creativity = Undef\<rparr> world0))) = 2"
proof -
  let ?o = "\<lparr>opt_tone = JUndefined, opt_length = JStr ''short'', opt_creativity = Undef\<rparr>"
  have h1: "opt_length ?o = JStr ''short''" by simp
  have h2: "''short'' \<in> set supported_lengths" by (simp add: supported_lengths_def)
  have n: "length (invoked (snd (generateContent flaky_service 0 ''Write about cats'' ?o world0))) = 2"
    by (simp add: eval_defs)
  from generateContent_ceiling[OF h1 h2, of world0 flaky_service 0 "''Write about cats''"]
  have "getMaxTokens (JStr ''short'') = Own 300
      \<and> set (map req_maxOutputTokens (drop (length (invoked world0))
           (invoked (snd (generateContent flaky_service 0 ''Write about cats'' ?o world0)))))
          \<subseteq> {Own 300}"
    by auto
  with h1 h2 n show ?thesis by blast
qed


subsection \<open>The operations and their requests\<close>

text \<open>
  \<open>primary_request\<close> and \<open>fallback_request\<close> are the calls the operations make: each
  operation is the \<open>replay\<close> of its primary request followed, for three of the four, by
  the \<open>replay\<close> of its fallback request when the first has failed.
\<close>

lemma primary_request_defined:
  "req_temperature (primary_request svc op) \<noteq> Undef"
  "req_maxOutputTokens (primary_request svc op) \<noteq> Missing"
  "req_temperature (fallback_request svc op) \<noteq> Undef"
  "req_maxOutputTokens (fallback_request svc op) \<noteq> Missing"
  by (cases op; simp add: primary_request_def fallback_request_def Let_def getMaxTokens_not_Missing
        split: js.splits)+

lemma generateContent_replay:
  "generateContent svc now prompt options w =
     (case replay svc (primary_request svc (GenerateContent prompt options)) w of
        (Inr resp, w1) \<Rightarrow>
          (Inr \<lparr>tokensUsed = cr_tokensUsed resp, timestamp = now,
                content = cr_text resp, model = defaultModel svc\<rparr>,
           logger Info ''Content generated'' w1)
      | (Inl err, w1) \<Rightarrow>
          (case replay svc (fallback_request svc (GenerateContent prompt options))
                  (logger Warn (''Primary model '' @ defaultModel svc @ '' failed: '' @ e_message err) w1) of
             (Inr resp2, w3) \<Rightarrow>
               (Inr \<lparr>tokensUsed = cr_tokensUsed resp2, timestamp = now,
                     content = cr_text resp2, model = fallbackModel svc\<rparr>,
                logger Info ''Content generated (fallback)'' w3)
           | (Inl err2, w3) \<Rightarrow>
               (Inl \<lparr>e_status = (if e_status err2 = 0 then 500 else e_status err2),
                     e_message = ''Failed to generate content (Gemini/GenAI)''\<rparr>,
                logger Error ''Generative content error (fallback):'' w3)))"
  by (simp add: generateContent_def replay_def primary_request_def fallback_request_def Let_def
        split: prod.splits sum.splits)

lemma enhanceContent_replay:
  "enhanceContent svc now s ty w =
     (case replay svc (primary_request svc (EnhanceContent s ty)) w of
        (Inr resp, w1) \<Rightarrow>
          (Inr \<lparr>tokensUsed = cr_tokensUsed resp, timestamp = now, enhancedText = cr_text resp\<rparr>, w1)
      | (Inl err, w1) \<Rightarrow>
          (case replay svc (fallback_request svc (EnhanceContent s ty)) w1 of
             (Inr resp2, w2) \<Rightarrow>
               (Inr \<lparr>tokensUsed = cr_tokensUsed resp2, timestamp = now,
                     enhancedText = cr_text resp2\<rparr>, w2)
           | (Inl err2, w2) \<Rightarrow> (Inl err2, logger Error ''Enhance content error:'' w2)))"
  by (simp add: enhanceContent_def replay_def primary_request_def fallback_request_def Let_def
        split: prod.splits sum.splits)

lemma generateTitles_replay:
  "generateTitles svc now cont count w =
     (case replay svc (primary_request svc (GenerateTitles cont count)) w of
        (Inr resp, w1) \<Rightarrow>
          (Inr \<lparr>tokensUsed = cr_tokensUsed resp, timestamp = now,
                titles = titles_of (cr_text resp) (case count of Undef \<Rightarrow> Val 5 | c \<Rightarrow> c)\<rparr>, w1)
      | (Inl err, w1) \<Rightarrow>
          (case replay svc (fallback_request svc (GenerateTitles cont count)) w1 of
             (Inr resp2, w2) \<Rightarrow>
               (Inr \<lparr>tokensUsed = cr_tokensUsed resp2, timestamp = now,
                     titles = titles_of (cr_text resp2) (case count of Undef \<Rightarrow> Val 5 | c \<Rightarrow> c)\<rparr>, w2)
           | (Inl err2, w2) \<Rightarrow> (Inl err2, logger Error ''Title generation error:'' w2)))"
  by (simp add: generateTitles_def replay_def primary_request_def fallback_request_def Let_def
        split: prod.splits sum.splits)

lemma correctGrammar_replay:
  "trim s \<noteq> [] \<Longrightarrow> correctGrammar svc now s w =
     (case replay svc (primary_request svc (CorrectGrammar s)) w of
        (Inr resp, w1) \<Rightarrow>
          (Inr \<lparr>tokensUsed = (if cr_tokensUsed resp = 0 then 0 else cr_tokensUsed resp),
                timestamp = now, correctedText = trim (cr_text resp), changes = []\<rparr>, w1)
      | (Inl err, w1) \<Rightarrow> (Inl err, logger Error ''Grammar correction error:'' w1))"
  by (auto simp add: correctGrammar_def replay_def primary_request_def Let_def trim_def)

text \<open>
  When the primary call succeeds, it is the only call and its answer is the result.
\<close>

lemma primary_success_single_call:
  assumes nb: "\<forall>s. op = CorrectGrammar s \<longrightarrow> trim s \<noteq> []"
      and ok: "replay svc (primary_request svc op) w = (Inr resp, w1)"
  shows "invoked (snd (run_op svc now op w)) = invoked w @ [primary_request svc op] \<and>
         fst (run_op svc now op w) = Inr \<lparr>tokensUsed = cr_tokensUsed resp, timestamp = now\<rparr>"
proof -
  note d = primary_request_defined[of svc op]
  from replay_invoked[OF d(1,2), of svc w] ok
  have i1: "invoked w1 = invoked w @ [primary_request svc op]" by simp
  show ?thesis using ok i1 nb
    by (cases op)
       (simp_all add: run_op_def generateContent_replay enhanceContent_replay
          generateTitles_replay correctGrammar_replay gen_result.truncate_def)
qed

subsection \<open>Primary and fallback model\<close>

text \<open>
  For \<open>generateContent\<close>, \<open>enhanceContent\<close> and \<open>generateTitles\<close>, whatever the service
  and the state: when the primary call fails, exactly one more call is made, the same
  request with the fallback model, and the operation returns the fallback's answer or one
  error that carries the status of the fallback's error.
\<close>

lemma fallback_after_primary_failure:
  assumes ng: "\<forall>s. op \<noteq> CorrectGrammar s"
      and fails: "replay svc (primary_request svc op) w = (Inl e, w1)"
  shows "invoked (snd (run_op svc now op w))
           = invoked w @ [primary_request svc op, fallback_request svc op] \<and>
         (case fst (replay svc (fallback_request svc op) w1) of
            Inr resp \<Rightarrow> fst (run_op svc now op w)
                           = Inr \<lparr>tokensUsed = cr_tokensUsed resp, timestamp = now\<rparr>
          | Inl e2 \<Rightarrow> \<exists>e'. fst (run_op svc now op w) = Inl e' \<and> e_status e' = e_status e2)"
proof -
  note d = primary_request_defined[of svc op]
  from replay_invoked[OF d(1,2), of svc w] fails
  have i1: "invoked w1 = invoked w @ [primary_request svc op]" by simp
  show ?thesis
  proof (cases op)
    case (GenerateContent prompt options)
    let ?u = "logger Warn (''Primary model '' @ defaultModel svc @ '' failed: '' @ e_message e) w1"
    obtain r2 w3 where f: "replay svc (fallback_request svc op) ?u = (r2, w3)"
      by (cases "replay svc (fallback_request svc op) ?u")
    from replay_invoked[OF d(3,4), of svc ?u] f i1
    have i2: "invoked w3 = invoked w @ [primary_request svc op, fallback_request svc op]" by simp
    have "fst (replay svc (fallback_request svc op) w1) = fst (replay svc (fallback_request svc op) ?u)"
      by (rule replay_logger[symmetric])
    then have r2: "fst (replay svc (fallback_request svc op) w1) = r2"
      by (simp only: f fst_conv)
    have st: "\<And>e2. r2 = Inl e2 \<Longrightarrow> e_status e2 \<noteq> 0" using replay_status f by blast
    show ?thesis unfolding r2 using fails f i2 st
      by (cases r2)
         (simp_all add: run_op_def GenerateContent generateContent_replay gen_result.truncate_def)
  next
    case (CorrectGrammar s)
    with ng show ?thesis by simp
  next
    case (EnhanceContent s ty)
    obtain r2 w3 where f: "replay svc (fallback_request svc op) w1 = (r2, w3)"
      by (cases "replay svc (fallback_request svc op) w1")
    from replay_invoked[OF d(3,4), of svc w1] f i1
    have i2: "invoked w3 = invoked w @ [primary_request svc op, fallback_request svc op]" by simp
    show ?thesis using fails f i2
      by (cases r2)
         (simp_all add: run_op_def EnhanceContent enhanceContent_replay gen_result.truncate_def)
  next
    case (GenerateTitles cont count)
    obtain r2 w3 where f: "replay svc (fallback_request svc op) w1 = (r2, w3)"
      by (cases "replay svc (fallback_request svc op) w1")
    from replay_invoked[OF d(3,4), of svc w1] f i1
    have i2: "invoked w3 = invoked w @ [primary_request svc op, fallback_request svc op]" by simp
    show ?thesis using fails f i2
      by (cases r2)
         (simp_all add: run_op_def GenerateTitles generateTitles_replay gen_result.truncate_def)
  qed
qed

text \<open>
  Whatever the service and the state, a grammar correction of a text that is not blank
  makes one call, to the primary model, and a failure of that call is what it returns.
\<close>

lemma correctGrammar_calls_once:
  assumes nb: "\<not> (\<forall>c\<in>set s. is_ws c)"
      and run: "correctGrammar svc now s w = (r, w')"
  shows "\<exists>rq. invoked w' = invoked w @ [rq] \<and> req_model rq = defaultModel svc
              \<and> (\<forall>e w1. replay svc rq w = (Inl e, w1) \<longrightarrow> r = Inl e)"
proof -
  let ?m = "Own (min 1200 (max 300 ((int (length s) + 1) div 2)))"
  let ?rq = "\<lparr>req_model = defaultModel svc, req_contents = grammar_prompt @ s,
              req_temperature = Val 0, req_maxOutputTokens = ?m\<rparr>"
  from nb have ne: "s \<noteq> []" "trim s \<noteq> []" by (auto simp: trim_Nil_iff)
  obtain r1 v1 where p: "callModel svc (defaultModel svc) (grammar_prompt @ s) (Val 0) ?m w = (r1, v1)"
    by (cases "callModel svc (defaultModel svc) (grammar_prompt @ s) (Val 0) ?m w")
  from callModel_invoked[OF p] have i: "invoked v1 = invoked w @ [?rq]" by simp
  have rp: "replay svc ?rq w = (r1, v1)" by (simp add: replay_def p)
  from run ne p have "invoked w' = invoked v1 \<and> (\<forall>e. r1 = Inl e \<longrightarrow> r = Inl e)"
    by (cases r1) (auto simp: correctGrammar_def Let_def)
  with i rp show ?thesis by (intro exI[of _ ?rq]) auto
qed

text \<open>
  Claim C2. A grammar correction whose primary call fails, on a client whose next call
  would succeed: \<open>correctGrammar\<close> surfaces the error after a single call to the
  primary model and never calls the fallback model, whereas \<open>enhanceContent\<close> on the same
  service and text goes on to the fallback model and returns its answer.
\<close>

theorem correctGrammar_no_fallback:
  "fst (correctGrammar flaky_service 0 ''teh cat sat'' world0)
     = Inl \<lparr>e_status = 500, e_message = ''upstream unavailable''\<rparr>
   \<and> map req_model (invoked (snd (correctGrammar flaky_service 0 ''teh cat sat'' world0)))
     = [''gemini-flash-latest'']
   \<and> map req_model (invoked (snd (enhanceContent flaky_service 0 ''teh cat sat'' (JStr ''improve'') world0)))
     = [''gemini-flash-latest'', ''text-bison-001'']
   \<and> fst (enhanceContent flaky_service 0 ''teh cat sat'' (JStr ''improve'') world0)
     = Inr \<lparr>tokensUsed = 42, timestamp = 0, enhancedText = ''The cat sat on the mat.''\<rparr>"
  by (simp add: correctGrammar_def enhanceContent_def callModel_def flaky_service_def flaky_client_def
        world0_def trim_def is_ws_def normalize_error_def truthy_int_def logger_def Let_def
        sample_response_def response_text_def response_tokens_def nullish_or_def)

text \<open>
  Claim C3. On a service whose client fails the first request and answers the second,
  the primary call of each of the four operations fails. \<open>generateContent\<close>,
  \<open>enhanceContent\<close> and \<open>generateTitles\<close> then call the fallback model once and return
  its answer; \<open>correctGrammar\<close> makes the primary call only and returns its error, so for
  this generation call the fallback model is not invoked at all.
\<close>

theorem grammar_call_without_fallback:
  "map (\<lambda>op. map req_model (invoked (snd (run_op flaky_service 0 op world0))))
     [GenerateContent ''Write about cats''
        \<lparr>opt_tone = JUndefined, opt_length = JUndefined, opt_creativity = Undef\<rparr>,
      EnhanceContent ''teh cat sat'' (JStr ''improve''),
      GenerateTitles ''A post about cats'' Undef,
      CorrectGrammar ''teh cat sat'']
     = [[''gemini-flash-latest'', ''text-bison-001''],
        [''gemini-flash-latest'', ''text-bison-001''],
        [''gemini-flash-latest'', ''text-bison-001''],
        [''gemini-flash-latest'']]
   \<and> fst (replay flaky_service (primary_request flaky_service (CorrectGrammar ''teh cat sat'')) world0)
       = Inl \<lparr>e_status = 500, e_message = ''upstream unavailable''\<rparr>
   \<and> fst (run_op flaky_service 0 (CorrectGrammar ''teh cat sat'') world0)
       = Inl \<lparr>e_status = 500, e_message = ''upstream unavailable''\<rparr>
   \<and> fst (run_op flaky_service 0 (EnhanceContent ''teh cat sat'' (JStr ''improve'')) world0)
       = Inr \<lparr>tokensUsed = 42, timestamp = 0\<rparr>"
proof -
  have tr: "trim ''teh cat sat'' \<noteq> []" by (simp add: trim_def is_ws_def)
  have cf: "client flaky_service = Some flaky_client" by (simp add: flaky_service_def)
  have w0: "invoked world0 = []" "sent world0 = []" by (simp_all add: world0_def)
  have m: "defaultModel flaky_service = ''gemini-flash-latest''"
          "fallbackModel flaky_service = ''text-bison-001''" by (simp_all add: flaky_service_def)
  have p: "\<And>op. replay flaky_service (primary_request flaky_service op) world0 =
        (Inl \<lparr>e_status = 500, e_message = ''upstream unavailable''\<rparr>,
         world0\<lparr>invoked := invoked world0 @ [primary_request flaky_service op],
                sent := sent world0 @ [primary_request flaky_service op]\<rparr>)"
    by (simp add: replay_answer[OF cf primary_request_defined(1,2)] flaky_client_def world0_def
          normalize_error_def truthy_int_def)
  have f: "\<And>op w1. length (sent w1) = 1 \<Longrightarrow> fst (replay flaky_service (fallback_request flaky_service op) w1) =
        Inr \<lparr>cr_text = ''The cat sat on the mat.'', cr_tokensUsed = 42\<rparr>"
    by (simp add: replay_answer[OF cf primary_request_defined(3,4)] flaky_client_def
          sample_response_def response_text_def response_tokens_def nullish_or_def)
  have rm: "\<And>op. req_model (primary_request flaky_service op) = ''gemini-flash-latest''"
           "\<And>op. req_model (fallback_request flaky_service op) = ''text-bison-001''"
    subgoal for op by (cases op) (simp_all add: primary_request_def Let_def m)
    subgoal for op by (simp add: fallback_request_def m)
    done
  have two: "\<And>op. \<forall>s. op \<noteq> CorrectGrammar s \<Longrightarrow>
        map req_model (invoked (snd (run_op flaky_service 0 op world0)))
          = [''gemini-flash-latest'', ''text-bison-001''] \<and>
        fst (run_op flaky_service 0 op world0) = Inr \<lparr>tokensUsed = 42, timestamp = 0\<rparr>"
    subgoal for op
      using fallback_after_primary_failure[OF _ p[of op], of 0] f[of _ op]
      by (simp add: rm world0_def)
    done
  have g: "replay flaky_service (primary_request flaky_service (CorrectGrammar ''teh cat sat'')) world0
           = (Inl \<lparr>e_status = 500, e_message = ''upstream unavailable''\<rparr>,
              world0\<lparr>invoked := invoked world0 @ [primary_request flaky_service (CorrectGrammar ''teh cat sat'')],
                     sent := sent world0 @ [primary_request flaky_service (CorrectGrammar ''teh cat sat'')]\<rparr>)"
    by (rule p)
  have one: "map req_model (invoked (snd (run_op flaky_service 0 (CorrectGrammar ''teh cat sat'') world0)))
          = [''gemini-flash-latest''] \<and>
        fst (run_op flaky_service 0 (CorrectGrammar ''teh cat sat'') world0)
          = Inl \<lparr>e_status = 500, e_message = ''upstream unavailable''\<rparr>"
    by (simp add: run_op_def correctGrammar_replay[OF tr] g rm w0)
  show ?thesis using two one g by simp
qed

subsection \<open>Grammar correction of a blank text\<close>

text \<open>
  Claim C4. For a text that is empty or consists of white space only, \<open>correctGrammar\<close>
  returns an empty corrected text, no changes and a token cost of 0, and leaves the state
  as it was: no call is logged and nothing reaches the client.
\<close>

theorem correctGrammar_blank:
  assumes "\<forall>c\<in>set txt. is_ws c"
  shows "correctGrammar svc now txt w =
           (Inr \<lparr>tokensUsed = 0, timestamp = now, correctedText = [], changes = []\<rparr>, w)"
  using trim_ws[OF assms] by (simp add: correctGrammar_def)

text \<open>
  Witness for C4: a space, a tab and a line feed.
\<close>

theorem correctGrammar_blank_witness:
  "is_ws (CHR '' '') \<and> is_ws (CHR 0x09) \<and> is_ws (CHR 0x0A) \<and>
   correctGrammar steady_service 7 [CHR '' '', CHR 0x09, CHR 0x0A] world0 =
     (Inr \<lparr>tokensUsed = 0, timestamp = 7, correctedText = [], changes = []\<rparr>, world0)"
proof -
  have h: "\<forall>c\<in>set [CHR '' '', CHR 0x09, CHR 0x0A]. is_ws c" by (simp add: is_ws_def)
  from h correctGrammar_blank[OF h] show ?thesis by simp
qed

subsection \<open>Titles\<close>

lemma titles_of_take:
  "0 \<le> count \<Longrightarrow> titles_of s (Val count) =
     take (nat count) (filter (\<lambda>l. l \<noteq> []) (map trim (split_on (CHR 0x0A) s)))"
  by (simp add: titles_of_def slice0_def)

lemma generateTitles_answered:
  assumes cl: "client svc = Some c"
      and ans: "c (length (sent w)) (primary_request svc (GenerateTitles cont count)) = Inr resp \<or>
                (\<exists>err. c (length (sent w)) (primary_request svc (GenerateTitles cont count)) = Inl err) \<and>
                c (Suc (length (sent w))) (fallback_request svc (GenerateTitles cont count)) = Inr resp"
  shows "fst (generateTitles svc now cont count w) =
           Inr \<lparr>tokensUsed = response_tokens resp, timestamp = now,
                titles = titles_of (response_text resp) (case count of Undef \<Rightarrow> Val 5 | c \<Rightarrow> c)\<rparr>"
proof -
  let ?op = "GenerateTitles cont count"
  note d = primary_request_defined[of svc ?op]
  from ans show ?thesis
  proof
    assume "c (length (sent w)) (primary_request svc ?op) = Inr resp"
    then show ?thesis
      by (simp add: generateTitles_replay replay_answer[OF cl d(1,2)])
  next
    assume a: "(\<exists>err. c (length (sent w)) (primary_request svc ?op) = Inl err) \<and>
               c (Suc (length (sent w))) (fallback_request svc ?op) = Inr resp"
    then obtain err where "c (length (sent w)) (primary_request svc ?op) = Inl err" by blast
    with a show ?thesis
      by (simp add: generateTitles_replay replay_answer[OF cl d(1,2)] replay_answer[OF cl d(3,4)])
  qed
qed

text \<open>
  Claim C6, amended. For a count between 1 and 10 and the answer \<open>resp\<close> that the client
  gives to the primary call, or to the fallback call after the primary one has failed,
  \<open>generateTitles\<close> returns the titles obtained from the text of \<open>resp\<close> by splitting it
  at line feeds, trimming every line, discarding the lines that are empty after trimming
  and keeping the first \<open>count\<close> of the rest, in their order: at most \<open>count\<close> titles, each
  trimmed and not empty. For \<open>count = 5\<close> and a text of 8 lines of which none is blank, these
  are the first five lines, trimmed.
\<close>

theorem generateTitles_lines:
  assumes cl: "client svc = Some c"
      and lo: "1 \<le> count" and hi: "count \<le> 10"
      and ans: "c (length (sent w)) (primary_request svc (GenerateTitles cont (Val count))) = Inr resp \<or>
                (\<exists>err. c (length (sent w)) (primary_request svc (GenerateTitles cont (Val count))) = Inl err) \<and>
                c (Suc (length (sent w))) (fallback_request svc (GenerateTitles cont (Val count))) = Inr resp"
  shows "\<exists>ts. fst (generateTitles svc now cont (Val count) w) =
                 Inr \<lparr>tokensUsed = response_tokens resp, timestamp = now, titles = ts\<rparr> \<and>
              ts = take (nat count)
                     (filter (\<lambda>l. l \<noteq> []) (map trim (split_on (CHR 0x0A) (response_text resp)))) \<and>
              length ts \<le> nat count \<and>
              (\<forall>t \<in> set ts. t \<noteq> [] \<and> trim t = t) \<and>
              (count = 5 \<and> length (split_on (CHR 0x0A) (response_text resp)) = 8 \<and>
               (\<forall>l \<in> set (split_on (CHR 0x0A) (response_text resp)). trim l \<noteq> []) \<longrightarrow>
                 ts = map trim (take 5 (split_on (CHR 0x0A) (response_text resp))) \<and> length ts = 5)"
proof -
  let ?ls = "split_on (CHR 0x0A) (response_text resp)"
  let ?ts = "take (nat count) (filter (\<lambda>l. l \<noteq> []) (map trim ?ls))"
  from lo have "titles_of (response_text resp) (Val count) = ?ts" by (simp add: titles_of_take)
  with generateTitles_answered[OF cl ans, of now]
  have r: "fst (generateTitles svc now cont (Val count) w) =
             Inr \<lparr>tokensUsed = response_tokens resp, timestamp = now, titles = ?ts\<rparr>" by simp
  have len: "length ?ts \<le> nat count" by simp
  have el: "\<forall>t \<in> set ?ts. t \<noteq> [] \<and> trim t = t"
  proof
    fix t assume "t \<in> set ?ts"
    then have "t \<in> set (filter (\<lambda>l. l \<noteq> []) (map trim ?ls))" by (rule in_set_takeD)
    then show "t \<noteq> [] \<and> trim t = t" by (auto simp: trim_idem)
  qed
  have inst: "count = 5 \<and> length ?ls = 8 \<and> (\<forall>l \<in> set ?ls. trim l \<noteq> []) \<longrightarrow>
                ?ts = map trim (take 5 ?ls) \<and> length ?ts = 5"
  proof
    assume a: "count = 5 \<and> length ?ls = 8 \<and> (\<forall>l \<in> set ?ls. trim l \<noteq> [])"
    then have "filter (\<lambda>l. l \<noteq> []) (map trim ?ls) = map trim ?ls"
      by (auto simp: filter_id_conv)
    with a show "?ts = map trim (take 5 ?ls) \<and> length ?ts = 5" by (simp add: take_map)
  qed
  from r len el inst show ?thesis by blast
qed

text \<open>
  Witness for C6: an answer of eight lines, two of them with white space around the
  title, and an answer of one line given by the fallback model.
\<close>

theorem generateTitles_lines_witness:
  "client (answering (reply eight_lines Undef)) = Some (\<lambda>k rq. Inr (reply eight_lines Undef))
   \<and> length (split_on (CHR 0x0A) (response_text (reply eight_lines Undef))) = 8
   \<and> [] \<notin> set (map trim (split_on (CHR 0x0A) (response_text (reply eight_lines Undef))))
   \<and> fst (generateTitles (answering (reply eight_lines Undef)) 0 ''A post about cats'' (Val 5) world0)
       = Inr \<lparr>tokensUsed = 0, timestamp = 0,
              titles = [''Alpha'', ''Beta'', ''Gamma'', ''Delta'', ''Epsilon'']\<rparr>
   \<and> client flaky_service = Some flaky_client
   \<and> fst (generateTitles flaky_service 0 ''A post about cats'' (Val 1) world0)
       = Inr \<lparr>tokensUsed = 42, timestamp = 0, titles = [''The cat sat on the mat.'']\<rparr>"
proof -
  let ?resp = "reply eight_lines Undef"
  let ?a = "answering ?resp"
  let ?ls = "['' Alpha'', ''Beta '', ''Gamma'', ''Delta'', ''Epsilon'', ''Zeta'', ''Eta'', ''Theta'']"
  have ca: "client ?a = Some (\<lambda>k rq. Inr ?resp)" by (simp add: answering_def)
  have ls: "split_on (CHR 0x0A) (response_text ?resp) = ?ls"
    by (simp add: reply_def response_text_def nullish_or_def eight_lines_def nl_def)
  have tr: "map trim ?ls
              = [''Alpha'', ''Beta'', ''Gamma'', ''Delta'', ''Epsilon'', ''Zeta'', ''Eta'', ''Theta'']"
    by (simp add: trim_def is_ws_def)
  have tk: "response_tokens ?resp = 0"
    by (simp add: reply_def response_tokens_def nullish_or_def)
  have ans: "(\<lambda>k rq. Inr ?resp) (length (sent world0))
               (primary_request ?a (GenerateTitles ''A post about cats'' (Val 5))) = Inr ?resp \<or>
             (\<exists>err. (\<lambda>k rq. Inr ?resp) (length (sent world0))
                (primary_request ?a (GenerateTitles ''A post about cats'' (Val 5))) = Inl err) \<and>
             (\<lambda>k rq. Inr ?resp) (Suc (length (sent world0)))
                (fallback_request ?a (GenerateTitles ''A post about cats'' (Val 5))) = Inr ?resp"
    by simp
  have lo: "1 \<le> (5::int)" and hi: "(5::int) \<le> 10" by simp_all
  from generateTitles_lines[OF ca lo hi ans, of 0]
  obtain ts where r: "fst (generateTitles ?a 0 ''A post about cats'' (Val 5) world0) =
                 Inr \<lparr>tokensUsed = response_tokens ?resp, timestamp = 0, titles = ts\<rparr>"
    and ts: "ts = take (nat 5) (filter (\<lambda>l. l \<noteq> []) (map trim (split_on (CHR 0x0A) (response_text ?resp))))"
    by blast
  have "ts = [''Alpha'', ''Beta'', ''Gamma'', ''Delta'', ''Epsilon'']"
    unfolding ts ls tr by simp
  with r tk have 1: "fst (generateTitles ?a 0 ''A post about cats'' (Val 5) world0)
       = Inr \<lparr>tokensUsed = 0, timestamp = 0,
              titles = [''Alpha'', ''Beta'', ''Gamma'', ''Delta'', ''Epsilon'']\<rparr>" by simp
  have 2: "length (split_on (CHR 0x0A) (response_text ?resp)) = 8" unfolding ls by simp
  have 3: "[] \<notin> set (map trim (split_on (CHR 0x0A) (response_text ?resp)))"
    unfolding ls tr by simp
  have cf: "client flaky_service = Some flaky_client" by (simp add: flaky_service_def)
  have sr: "split_on (CHR 0x0A) (response_text sample_response) = [''The cat sat on the mat.'']"
    "response_tokens sample_response = 42"
    by (simp_all add: sample_response_def response_text_def response_tokens_def nullish_or_def)
  have st: "trim ''The cat sat on the mat.'' = ''The cat sat on the mat.''"
    by (simp add: trim_def is_ws_def)
  have ansf: "flaky_client (length (sent world0))
               (primary_request flaky_service (GenerateTitles ''A post about cats'' (Val 1)))
                 = Inr sample_response \<or>
             (\<exists>err. flaky_client (length (sent world0))
                (primary_request flaky_service (GenerateTitles ''A post about cats'' (Val 1))) = Inl err) \<and>
             flaky_client (Suc (length (sent world0)))
                (fallback_request flaky_service (GenerateTitles ''A post about cats'' (Val 1)))
                 = Inr sample_response"
    by (simp add: flaky_client_def world0_def)
  have lo1: "1 \<le> (1::int)" and hi1: "(1::int) \<le> 10" by simp_all
  from generateTitles_lines[OF cf lo1 hi1 ansf, of 0]
  obtain us where r1: "fst (generateTitles flaky_service 0 ''A post about cats'' (Val 1) world0) =
                 Inr \<lparr>tokensUsed = response_tokens sample_response, timestamp = 0, titles = us\<rparr>"
    and us: "us = take (nat 1) (filter (\<lambda>l. l \<noteq> [])
                     (map trim (split_on (CHR 0x0A) (response_text sample_response))))"
    by blast
  have "us = [''The cat sat on the mat.'']" unfolding us sr by (simp add: st)
  with r1 sr have 4: "fst (generateTitles flaky_service 0 ''A post about cats'' (Val 1) world0)
       = Inr \<lparr>tokensUsed = 42, timestamp = 0, titles = [''The cat sat on the mat.'']\<rparr>" by simp
  from ca cf 1 2 3 4 show ?thesis by blast
qed

text \<open>
  Counterexample for C6: eight lines of which none is empty, four of them a single space.
  With \<open>count = 5\<close> the result has four titles.
\<close>

theorem generateTitles_blank_lines_counterexample:
  "length (split_on (CHR 0x0A) (response_text (reply blank_tail Undef))) = 8
   \<and> [] \<notin> set (split_on (CHR 0x0A) (response_text (reply blank_tail Undef)))
   \<and> fst (generateTitles (answering (reply blank_tail Undef)) 0 ''A post about cats'' (Val 5) world0)
       = Inr \<lparr>tokensUsed = 0, timestamp = 0, titles = [''Alpha'', ''Beta'', ''Gamma'', ''Delta'']\<rparr>"
proof -
  have ls: "split_on (CHR 0x0A) (response_text (reply blank_tail Undef)) =
              [''Alpha'', ''Beta'', ''Gamma'', ''Delta'', '' '', '' '', '' '', '' '']"
    by (simp add: reply_def response_text_def nullish_or_def blank_tail_def nl_def)
  have tr: "trim ''Alpha'' = ''Alpha''" "trim ''Beta'' = ''Beta''" "trim ''Gamma'' = ''Gamma''"
    "trim ''Delta'' = ''Delta''" "trim '' '' = []"
    by (simp_all add: trim_def is_ws_def)
  have g: "fst (generateTitles (answering (reply blank_tail Undef)) 0 ''A post about cats'' (Val 5) world0)
       = Inr \<lparr>tokensUsed = response_tokens (reply blank_tail Undef), timestamp = 0,
              titles = titles_of (response_text (reply blank_tail Undef)) (Val 5)\<rparr>"
    by (simp add: generateTitles_def callModel_def answering_def Let_def)
  show ?thesis unfolding g
    by (simp add: titles_of_def slice0_def ls tr) (simp add: reply_def response_tokens_def nullish_or_def)
qed

subsection \<open>Token cost\<close>

lemma response_tokens_first:
  "response_tokens resp = (case [n. Val n \<leftarrow> reported_counts resp] of [] \<Rightarrow> 0 | n # rest \<Rightarrow> n)"
  by (simp add: response_tokens_def reported_counts_def nullish_or_def split: js.splits)

text \<open>
  Claim C7, amended. The token cost of a result is a number in every case: 0 for a blank
  text, which makes no call, and otherwise the first count present among
  \<^verbatim>\<open>metadata.tokenCount\<close>, \<^verbatim>\<open>usage.totalTokens\<close> and \<^verbatim>\<open>usage.total_tokens\<close> of the
  answer the operation uses (the primary call's, or the fallback call's after a failed
  primary call), unchanged, and 0 when the answer has none.
\<close>

theorem token_cost_reported:
  assumes cl: "client svc = Some c"
  shows "(trim s = [] \<longrightarrow>
            fst (run_op svc now (CorrectGrammar s) w) = Inr \<lparr>tokensUsed = 0, timestamp = now\<rparr>) \<and>
         ((\<forall>s. op = CorrectGrammar s \<longrightarrow> trim s \<noteq> []) \<and>
          c (length (sent w)) (primary_request svc op) = Inr resp \<longrightarrow>
            fst (run_op svc now op w) =
              Inr \<lparr>tokensUsed = (case [n. Val n \<leftarrow> reported_counts resp] of [] \<Rightarrow> 0 | n # rest \<Rightarrow> n),
                   timestamp = now\<rparr>) \<and>
         ((\<forall>s. op \<noteq> CorrectGrammar s) \<and>
          (\<exists>err. c (length (sent w)) (primary_request svc op) = Inl err) \<and>
          c (Suc (length (sent w))) (fallback_request svc op) = Inr resp \<longrightarrow>
            fst (run_op svc now op w) =
              Inr \<lparr>tokensUsed = (case [n. Val n \<leftarrow> reported_counts resp] of [] \<Rightarrow> 0 | n # rest \<Rightarrow> n),
                   timestamp = now\<rparr>)"
proof (intro conjI impI)
  assume "trim s = []"
  then show "fst (run_op svc now (CorrectGrammar s) w) = Inr \<lparr>tokensUsed = 0, timestamp = now\<rparr>"
    by (simp add: run_op_def correctGrammar_def gen_result.truncate_def)
next
  assume a: "(\<forall>s. op = CorrectGrammar s \<longrightarrow> trim s \<noteq> []) \<and>
             c (length (sent w)) (primary_request svc op) = Inr resp"
  note d = primary_request_defined[of svc op]
  from a have "replay svc (primary_request svc op) w =
      (Inr \<lparr>cr_text = response_text resp, cr_tokensUsed = response_tokens resp\<rparr>,
       w\<lparr>invoked := invoked w @ [primary_request svc op],
         sent := sent w @ [primary_request svc op]\<rparr>)"
    by (simp add: replay_answer[OF cl d(1,2)])
  from primary_success_single_call[OF _ this, of now] a
  show "fst (run_op svc now op w) =
          Inr \<lparr>tokensUsed = (case [n. Val n \<leftarrow> reported_counts resp] of [] \<Rightarrow> 0 | n # rest \<Rightarrow> n),
               timestamp = now\<rparr>"
    by (simp add: response_tokens_first)
next
  assume a: "(\<forall>s. op \<noteq> CorrectGrammar s) \<and>
             (\<exists>err. c (length (sent w)) (primary_request svc op) = Inl err) \<and>
             c (Suc (length (sent w))) (fallback_request svc op) = Inr resp"
  then obtain err where err: "c (length (sent w)) (primary_request svc op) = Inl err" by blast
  note d = primary_request_defined[of svc op]
  let ?w1 = "w\<lparr>invoked := invoked w @ [primary_request svc op],
               sent := sent w @ [primary_request svc op]\<rparr>"
  from err have p: "replay svc (primary_request svc op) w = (Inl (normalize_error err), ?w1)"
    by (simp add: replay_answer[OF cl d(1,2)])
  from a have f: "fst (replay svc (fallback_request svc op) ?w1) =
      Inr \<lparr>cr_text = response_text resp, cr_tokensUsed = response_tokens resp\<rparr>"
    by (simp add: replay_answer[OF cl d(3,4)])
  from fallback_after_primary_failure[OF _ p, of now] a f
  show "fst (run_op svc now op w) =
          Inr \<lparr>tokensUsed = (case [n. Val n \<leftarrow> reported_counts resp] of [] \<Rightarrow> 0 | n # rest \<Rightarrow> n),
               timestamp = now\<rparr>"
    by (simp add: response_tokens_first)
qed

text \<open>
  Witness for C7: an answer that reports 17 tokens, one that reports nothing, the fallback
  answer of the service whose first call fails, and a blank text.
\<close>

theorem token_cost_reported_witness:
  "client (answering (reply ''The cat sat.'' (Val 17)))
     = Some (\<lambda>k rq. Inr (reply ''The cat sat.'' (Val 17)))
   \<and> fst (run_op (answering (reply ''The cat sat.'' (Val 17))) 0
            (EnhanceContent ''teh cat sat'' (JStr ''improve'')) world0)
       = Inr \<lparr>tokensUsed = 17, timestamp = 0\<rparr>
   \<and> fst (run_op (answering (reply ''The cat sat.'' Undef)) 0
            (CorrectGrammar ''teh cat sat'') world0)
       = Inr \<lparr>tokensUsed = 0, timestamp = 0\<rparr>
   \<and> client flaky_service = Some flaky_client
   \<and> fst (run_op flaky_service 0 (GenerateTitles ''A post about cats'' Undef) world0)
       = Inr \<lparr>tokensUsed = 42, timestamp = 0\<rparr>
   \<and> fst (run_op flaky_service 0 (CorrectGrammar '' '') world0)
       = Inr \<lparr>tokensUsed = 0, timestamp = 0\<rparr>"
proof -
  let ?a = "answering (reply ''The cat sat.'' (Val 17))"
  let ?b = "answering (reply ''The cat sat.'' Undef)"
  have ca: "client ?a = Some (\<lambda>k rq. Inr (reply ''The cat sat.'' (Val 17)))"
    by (simp add: answering_def)
  have cb: "client ?b = Some (\<lambda>k rq. Inr (reply ''The cat sat.'' Undef))"
    by (simp add: answering_def)
  have cf: "client flaky_service = Some flaky_client" by (simp add: flaky_service_def)
  have tr: "trim ''teh cat sat'' \<noteq> []" "trim '' '' = []" by (simp_all add: trim_def is_ws_def)
  have 1: "fst (run_op ?a 0 (EnhanceContent ''teh cat sat'' (JStr ''improve'')) world0)
       = Inr \<lparr>tokensUsed = 17, timestamp = 0\<rparr>"
    using token_cost_reported[OF ca, of "[]" 0 world0 "EnhanceContent ''teh cat sat'' (JStr ''improve'')"
            "reply ''The cat sat.'' (Val 17)"]
    by (simp add: reported_counts_def reply_def)
  have 2: "fst (run_op ?b 0 (CorrectGrammar ''teh cat sat'') world0)
       = Inr \<lparr>tokensUsed = 0, timestamp = 0\<rparr>"
    using token_cost_reported[OF cb, of "[]" 0 world0 "CorrectGrammar ''teh cat sat''"
            "reply ''The cat sat.'' Undef"] tr
    by (simp add: reported_counts_def reply_def)
  have 3: "fst (run_op flaky_service 0 (GenerateTitles ''A post about cats'' Undef) world0)
       = Inr \<lparr>tokensUsed = 42, timestamp = 0\<rparr>"
    using token_cost_reported[OF cf, of "[]" 0 world0 "GenerateTitles ''A post about cats'' Undef"
            sample_response]
    by (simp add: reported_counts_def sample_response_def flaky_client_def world0_def)
  have 4: "fst (run_op flaky_service 0 (CorrectGrammar '' '') world0)
       = Inr \<lparr>tokensUsed = 0, timestamp = 0\<rparr>"
    using token_cost_reported[OF cf, of "'' ''" 0 world0] tr by simp
  from ca cf 1 2 3 4 show ?thesis by blast
qed

text \<open>
  Counterexample for C7: the provider reports \<open>- 3\<close> under \<^verbatim>\<open>usage.totalTokens\<close>, and the
  token cost of the result is \<open>- 3\<close>.
\<close>

theorem token_cost_negative_counterexample:
  "fst (run_op (answering (reply ''The cat sat.'' (Val (- 3)))) 0
          (EnhanceContent ''teh cat sat'' (JStr ''improve'')) world0)
     = Inr \<lparr>tokensUsed = - 3, timestamp = 0\<rparr>"
  by (simp add: eval_defs answering_def reply_def)

subsection \<open>The usage ledger\<close>

lemma logAIUsage_fields:
  "invoked (logAIUsage f now u p ft n w) = invoked w"
  "sent (logAIUsage f now u p ft n w) = sent w"
  "free_store (logAIUsage f now u p ft n w) = free_store w"
  "general_store (logAIUsage f now u p ft n w) = general_store w"
  by (simp_all add: logAIUsage_def)

lemma handlers_insert_response:
  "fst (generate_handler svc now True usr body w) = fst (generate_handler svc now False usr body w)"
  "fst (grammar_handler svc now True usr s w) = fst (grammar_handler svc now False usr s w)"
  "fst (enhance_handler svc now True usr s ty w) = fst (enhance_handler svc now False usr s ty w)"
  "fst (titles_handler svc now True usr s n w) = fst (titles_handler svc now False usr s n w)"
  by (auto simp: generate_handler_def grammar_handler_def enhance_handler_def titles_handler_def
        Let_def split: prod.splits sum.splits)

lemma handlers_insert_calls:
  "invoked (snd (generate_handler svc now True usr body w)) = invoked (snd (generate_handler svc now False usr body w))"
  "invoked (snd (grammar_handler svc now True usr s w)) = invoked (snd (grammar_handler svc now False usr s w))"
  "invoked (snd (enhance_handler svc now True usr s ty w)) = invoked (snd (enhance_handler svc now False usr s ty w))"
  "invoked (snd (titles_handler svc now True usr s n w)) = invoked (snd (titles_handler svc now False usr s n w))"
  "sent (snd (generate_handler svc now True usr body w)) = sent (snd (generate_handler svc now False usr body w))"
  "sent (snd (grammar_handler svc now True usr s w)) = sent (snd (grammar_handler svc now False usr s w))"
  "sent (snd (enhance_handler svc now True usr s ty w)) = sent (snd (enhance_handler svc now False usr s ty w))"
  "sent (snd (titles_handler svc now True usr s n w)) = sent (snd (titles_handler svc now False usr s n w))"
  by (auto simp: generate_handler_def grammar_handler_def enhance_handler_def titles_handler_def
        Let_def logAIUsage_fields split: prod.splits sum.splits)

lemma facade_keeps:
  "generateContent svc now p opts w = (r1, w1) \<Longrightarrow>
     ledger w1 = ledger w \<and> free_store w1 = free_store w \<and> general_store w1 = general_store w"
  "correctGrammar svc now s w = (r2, w2) \<Longrightarrow>
     ledger w2 = ledger w \<and> free_store w2 = free_store w \<and> general_store w2 = general_store w"
  "enhanceContent svc now s ty w = (r3, w3) \<Longrightarrow>
     ledger w3 = ledger w \<and> free_store w3 = free_store w \<and> general_store w3 = general_store w"
  "generateTitles svc now s n w = (r4, w4) \<Longrightarrow>
     ledger w4 = ledger w \<and> free_store w4 = free_store w \<and> general_store w4 = general_store w"
  by (auto simp: generateContent_def correctGrammar_def enhanceContent_def generateTitles_def Let_def
        split: prod.splits sum.splits if_splits dest!: callModel_keeps)

lemma handlers_insert_ledger:
  "http_status (fst (generate_handler svc now True usr body w)) = 200 \<Longrightarrow>
     ledger (snd (generate_handler svc now True usr body w)) = ledger w
     \<and> (Error, ''Failed to log AI usage:'') \<in> set (logs (snd (generate_handler svc now True usr body w)))
     \<and> length (ledger (snd (generate_handler svc now False usr body w))) = Suc (length (ledger w))"
  "http_status (fst (grammar_handler svc now True usr s w)) = 200 \<Longrightarrow>
     ledger (snd (grammar_handler svc now True usr s w)) = ledger w
     \<and> (Error, ''Failed to log AI usage:'') \<in> set (logs (snd (grammar_handler svc now True usr s w)))
     \<and> length (ledger (snd (grammar_handler svc now False usr s w))) = Suc (length (ledger w))"
  "http_status (fst (enhance_handler svc now True usr s ty w)) = 200 \<Longrightarrow>
     ledger (snd (enhance_handler svc now True usr s ty w)) = ledger w
     \<and> (Error, ''Failed to log AI usage:'') \<in> set (logs (snd (enhance_handler svc now True usr s ty w)))
     \<and> length (ledger (snd (enhance_handler svc now False usr s ty w))) = Suc (length (ledger w))"
  "http_status (fst (titles_handler svc now True usr s n w)) = 200 \<Longrightarrow>
     ledger (snd (titles_handler svc now True usr s n w)) = ledger w
     \<and> (Error, ''Failed to log AI usage:'') \<in> set (logs (snd (titles_handler svc now True usr s n w)))
     \<and> length (ledger (snd (titles_handler svc now False usr s n w))) = Suc (length (ledger w))"
  by (auto simp: generate_handler_def grammar_handler_def enhance_handler_def titles_handler_def
        Let_def logAIUsage_def validation_error_def
        split: prod.splits sum.splits if_splits dest!: facade_keeps)

text \<open>
  Claim C8. For each of the four generation routes, the answer is the same whether the
  insert into the usage ledger fails or not, and so are the calls made to the provider.
  When the answer is the success (status 200) and the insert fails, the ledger is left as
  it was and the failure is logged; for \<^verbatim>\<open>/generate\<close> the state is then exactly the one
  the generation left, plus that log line.
\<close>

theorem ledger_failure_swallowed:
  assumes "\<forall>p. call \<noteq> Usage p"
  shows "fst (dispatch svc now True usr call w) = fst (dispatch svc now False usr call w)
       \<and> invoked (snd (dispatch svc now True usr call w))
           = invoked (snd (dispatch svc now False usr call w))
       \<and> sent (snd (dispatch svc now True usr call w))
           = sent (snd (dispatch svc now False usr call w))
       \<and> (http_status (fst (dispatch svc now True usr call w)) = 200 \<longrightarrow>
            ledger (snd (dispatch svc now True usr call w)) = ledger w
            \<and> (Error, ''Failed to log AI usage:'')
                 \<in> set (logs (snd (dispatch svc now True usr call w)))
            \<and> length (ledger (snd (dispatch svc now False usr call w))) = Suc (length (ledger w)))
       \<and> (\<forall>body result w1.
             call = Generate body
             \<and> generateContent svc now (trim (b_prompt body))
                  \<lparr>opt_tone = b_tone body, opt_length = b_length body,
                   opt_creativity = b_creativity body\<rparr> w = (Inr result, w1)
             \<and> fst (dispatch svc now True usr call w) \<noteq> validation_error \<longrightarrow>
             dispatch svc now True usr call w =
               (\<lparr>http_status = 200,
                 http_body = GenerateBody (content result) (tokensUsed result) (timestamp result)\<rparr>,
                logger Error ''Failed to log AI usage:'' w1))"
proof (cases call)
  case (Generate body)
  then show ?thesis
    using handlers_insert_response(1)[of svc now usr body w]
      handlers_insert_calls(1,5)[of svc now usr body w]
      handlers_insert_ledger(1)[of svc now usr body w]
    by (auto simp: dispatch_def generate_handler_def Let_def logAIUsage_def tokens_or_0_def
          validation_error_def)
next
  case (Grammar s)
  then show ?thesis
    using handlers_insert_response(2)[of svc now usr s w]
      handlers_insert_calls(2,6)[of svc now usr s w]
      handlers_insert_ledger(2)[of svc now usr s w]
    by (simp add: dispatch_def)
next
  case (Enhance s ty)
  then show ?thesis
    using handlers_insert_response(3)[of svc now usr s ty w]
      handlers_insert_calls(3,7)[of svc now usr s ty w]
      handlers_insert_ledger(3)[of svc now usr s ty w]
    by (simp add: dispatch_def)
next
  case (Titles s n)
  then show ?thesis
    using handlers_insert_response(4)[of svc now usr s n w]
      handlers_insert_calls(4,8)[of svc now usr s n w]
      handlers_insert_ledger(4)[of svc now usr s n w]
    by (simp add: dispatch_def)
next
  case (Usage p)
  with assms show ?thesis by simp
qed

text \<open>
  Witness for C8: a grammar request on the service that always answers.
\<close>

theorem ledger_failure_swallowed_witness:
  "(\<forall>p. Grammar ''teh cat sat'' \<noteq> Usage p)
   \<and> fst (dispatch steady_service 5 True \<lparr>user_id = 7\<rparr> (Grammar ''teh cat sat'') world0)
       = fst (dispatch steady_service 5 False \<lparr>user_id = 7\<rparr> (Grammar ''teh cat sat'') world0)
   \<and> http_status (fst (dispatch steady_service 5 True \<lparr>user_id = 7\<rparr> (Grammar ''teh cat sat'') world0)) = 200
   \<and> ledger (snd (dispatch steady_service 5 True \<lparr>user_id = 7\<rparr> (Grammar ''teh cat sat'') world0)) = []
   \<and> length (ledger (snd (dispatch steady_service 5 False \<lparr>user_id = 7\<rparr> (Grammar ''teh cat sat'') world0))) = 1"
proof -
  have h: "\<forall>p. Grammar ''teh cat sat'' \<noteq> Usage p" by simp
  have s: "http_status (fst (dispatch steady_service 5 True \<lparr>user_id = 7\<rparr> (Grammar ''teh cat sat'') world0)) = 200"
    by (simp add: dispatch_def grammar_handler_def isLength_def trim_def is_ws_def eval_defs
          logAIUsage_def tokens_or_0_def)
  from ledger_failure_swallowed[OF h, of steady_service 5 "\<lparr>user_id = 7\<rparr>" world0] h s
  show ?thesis by (simp add: world0_def)
qed

lemma parse30: "parseInt10 ''30'' = Some 30"
  by (simp add: parseInt10_def is_ws_def is_digit_def digits_value_def)

text \<open>
  The totals of a usage summary are taken over all the records of the user, whatever the
  period asked for.
\<close>

lemma usage_totals_all_time:
  assumes "usage_handler now False usr period w = (\<lparr>http_status = 200, http_body = UsageBody s\<rparr>, w')"
  shows "s_total_requests s = int (length (filter (\<lambda>r. u_user_id r = user_id usr) (ledger w)))
       \<and> s_total_tokens s = sum_tokens (filter (\<lambda>r. u_user_id r = user_id usr) (ledger w))"
  using assms
  by (auto simp: usage_handler_def Let_def total_query_def split: option.splits if_splits)

text \<open>
  Claim C1. The usage summary over the last 30 days, for a user with one record today,
  one 10 days ago and one 40 days ago. The per-feature and per-day queries carry the
  window and leave the oldest record out (two features with 2 requests and 300 tokens
  between them, two dates), but the totals come from a query that has no window: they
  count all three records (3 requests, 700 tokens) where the claim expects the first two
  only (2 requests, 300 tokens).
\<close>

theorem usage_total_not_windowed:
  "\<exists>s. fst (usage_handler today False \<lparr>user_id = 1\<rparr> (Val ''30'') (world0\<lparr>ledger := three_rows\<rparr>))
          = \<lparr>http_status = 200, http_body = UsageBody s\<rparr>
      \<and> s_period s = 30
      \<and> s_total_requests s = 3 \<and> s_total_tokens s = 700
      \<and> set (map f_feature_type (s_byFeature s)) = {''generate'', ''grammar''}
      \<and> sum_list (map f_request_count (s_byFeature s)) = 2
      \<and> sum_list (map f_total_tokens (s_byFeature s)) = 300
      \<and> s_dailyUsage s = [\<lparr>d_date = 100, d_requests = 1, d_tokens = 100\<rparr>,
                           \<lparr>d_date = 90, d_requests = 1, d_tokens = 200\<rparr>]"
  by (simp add: usage_handler_def parse30 usage_query_def daily_query_def total_query_def
        three_rows_def today_def day_ms_def date_of_def sum_tokens_def world0_def Let_def)

subsection \<open>The rate governor\<close>

text \<open>
  The object that \<^verbatim>\<open>authenticateToken\<close> attaches has no property \<^verbatim>\<open>user_id\<close>, so the
  key of an authenticated request is the same text for every user, and the limiter treats
  any two authenticated requests alike. The limiter makes no call to the provider and
  leaves the ledger as it is.
\<close>

lemma keyGenerator_authenticated:
  "keyGenerator engine \<lparr>req_user = Some (authenticated_user r), req_ip = ip, req_url = url\<rparr>
     = ''user:undefined''"
  by (simp add: keyGenerator_def authenticated_user_def object_get_def object_prototype_keys_def
        template_text_def)

lemma aiRateLimiter_any_user:
  "aiRateLimiter engine cfg now
      \<lparr>req_user = Some (authenticated_user r1), req_ip = ip1, req_url = url1\<rparr> w
   = aiRateLimiter engine cfg now
      \<lparr>req_user = Some (authenticated_user r2), req_ip = ip2, req_url = url2\<rparr> w"
  by (simp add: aiRateLimiter_def freeTierLimiter_def keyGenerator_authenticated)

lemma aiRateLimiter_request_of:
  "aiRateLimiter engine cfg now (request_of n) w =
     (case rate_limit_hit window_24h (free_tier_max cfg) ''user:undefined'' now (free_store w) of
        (admitted, store) \<Rightarrow>
          if admitted then (None, w\<lparr>free_store := store\<rparr>)
          else (Some ai_rate_limit_exceeded,
                logger Warn ''AI rate limit exceeded'' (w\<lparr>free_store := store\<rparr>)))"
  by (simp add: aiRateLimiter_def freeTierLimiter_def request_of_def keyGenerator_authenticated)

lemma aiRateLimiter_no_call:
  "invoked (snd (aiRateLimiter engine cfg now req w)) = invoked w \<and>
   sent (snd (aiRateLimiter engine cfg now req w)) = sent w \<and>
   ledger (snd (aiRateLimiter engine cfg now req w)) = ledger w"
  by (simp add: aiRateLimiter_def freeTierLimiter_def generalLimiter_def split: option.splits prod.splits)

text \<open>
  Claim C5. With a ceiling of two requests per window: after two requests of user 7, the
  first request of user 2 in the same window is refused with status 429, because both
  users are counted under the key \<^verbatim>\<open>user:undefined\<close>. And when user 7 has made three
  requests (the third refused), the window has elapsed and user 2 has made two requests in
  the new window, the next request of user 7 is refused, although its own window is over.
\<close>

theorem rate_limit_shared_by_users:
  "keyGenerator engine_text (request_of 7) = ''user:undefined''
   \<and> keyGenerator engine_text (request_of 2) = ''user:undefined''
   \<and> fst (limit_all engine_text small_config
             [(0, request_of 7), (1000, request_of 7), (2000, request_of 2)] world0)
       = [None, None, Some ai_rate_limit_exceeded]
   \<and> fst (limit_all engine_text small_config
             [(0, request_of 7), (1000, request_of 7), (2000, request_of 7),
              (window_24h, request_of 2), (window_24h + 1000, request_of 2),
              (window_24h + 2000, request_of 7)] world0)
       = [None, None, Some ai_rate_limit_exceeded, None, None, Some ai_rate_limit_exceeded]"
proof -
  have k: "\<And>n. keyGenerator engine_text (request_of n) = ''user:undefined''"
    by (simp add: request_of_def keyGenerator_authenticated)
  have a: "fst (limit_all engine_text small_config
             [(0, request_of 7), (1000, request_of 7), (2000, request_of 2)] world0)
       = [None, None, Some ai_rate_limit_exceeded]"
    by (simp add: aiRateLimiter_request_of rate_limit_hit_def free_tier_max_def env_or_def
          small_config_def window_24h_def world0_def logger_def Let_def)
  have b: "fst (limit_all engine_text small_config
             [(0, request_of 7), (1000, request_of 7), (2000, request_of 7),
              (window_24h, request_of 2), (window_24h + 1000, request_of 2),
              (window_24h + 2000, request_of 7)] world0)
       = [None, None, Some ai_rate_limit_exceeded, None, None, Some ai_rate_limit_exceeded]"
    by (simp add: aiRateLimiter_request_of rate_limit_hit_def free_tier_max_def env_or_def
          small_config_def window_24h_def world0_def logger_def Let_def)
  from k a b show ?thesis by simp
qed

end
